theory Spec2Isabelle
  imports Complex_Main "HOL-Library.AList"
begin

section \<open>JavaScript strings\<close>

text \<open>
  Strings of the registration routes are lists of code units restricted to the 8-bit
  range (\<open>string\<close>); every literal the handlers compare against is ASCII. Strings of
  the payment route are lists of 16-bit code units.
  \<^verbatim>\<open>s.startsWith(w)\<close> and \<^verbatim>\<open>s.includes(w)\<close>:
\<close>

fun startsWith :: "'a list \<Rightarrow> 'a list \<Rightarrow> bool" where
  "startsWith s [] = True"
| "startsWith [] (w # ws) = False"
| "startsWith (c # cs) (w # ws) = (c = w \<and> startsWith cs ws)"

fun str_includes :: "'a list \<Rightarrow> 'a list \<Rightarrow> bool" where
  "str_includes [] w = (w = [])"
| "str_includes (c # cs) w = (startsWith (c # cs) w \<or> str_includes cs w)"

section \<open>Errors thrown by the libraries\<close>

text \<open>
  An exception object as the handlers inspect it: \<^verbatim>\<open>error.name\<close>,
  \<^verbatim>\<open>error.message\<close>, \<^verbatim>\<open>error.code\<close>, \<^verbatim>\<open>error.kind\<close>,
  \<^verbatim>\<open>error.errors\<close> (path to message, for a ValidationError) and the keys of
  \<^verbatim>\<open>error.keyPattern\<close> (for a duplicate-key MongoServerError).
\<close>

record js_error =
  err_name :: string
  err_message :: string
  err_code :: "nat option"
  err_kind :: string
  err_errors :: "(string \<times> string) list"
  err_keyPattern :: "string list"

definition mk_error :: "string \<Rightarrow> string \<Rightarrow> js_error" where
  "mk_error n m = \<lparr>err_name = n, err_message = m, err_code = None, err_kind = [],
     err_errors = [], err_keyPattern = []\<rparr>"

definition ValidationError :: "(string \<times> string) list \<Rightarrow> js_error" where
  "ValidationError es = (mk_error ''ValidationError'' ''Validation failed'')\<lparr>err_errors := es\<rparr>"

definition CastError_ObjectId :: "string \<Rightarrow> js_error" where
  "CastError_ObjectId v =
     (mk_error ''CastError'' (''Cast to ObjectId failed for value '' @ v))\<lparr>err_kind := ''ObjectId''\<rparr>"

section \<open>Trading registrations: data model\<close>

text \<open>The object multer puts in \<^verbatim>\<open>req.files\<close> for one stored upload.\<close>

record multer_file =
  fieldname :: string
  originalname :: string
  mimetype :: string
  fsize :: nat
  filename :: string
  path :: string

text \<open>The file sub-document of a registration, as \<^verbatim>\<open>formatFileData\<close> builds it.\<close>

record file_data =
  fd_filename :: string
  fd_originalName :: string
  fd_mimetype :: string
  fd_size :: nat
  fd_path :: string

record verification_status =
  aadharVerified :: bool
  panVerified :: bool
  signatureVerified :: bool
  emailVerified :: bool
  phoneVerified :: bool

text \<open>
  A stored registration. \<open>reg_fields\<close> holds the personal fields of the request body,
  which no handler of the route module reads by name except \<^verbatim>\<open>email\<close>.
\<close>

record registration =
  reg_fields :: "(string \<times> string) list"
  aadharFile :: "file_data option"
  panFile :: "file_data option"
  signatureFile :: "file_data option"
  registrationStatus :: string
  adminNotes :: "string option"
  verificationStatus :: verification_status
  submissionDate :: int

text \<open>What \<^verbatim>\<open>new TradingRegistration(registrationData)\<close> is given.\<close>

record registration_data =
  rd_body :: "(string \<times> string) list"
  rd_aadharFile :: "file_data option"
  rd_signatureFile :: "file_data option"

type_synonym collection = "(string \<times> registration) list"

text \<open>
  The module \<^verbatim>\<open>../models/TradingRegistration\<close> and the mongoose casts it relies on
  are taken as a parameter: which id strings cast to an ObjectId, the schema method
  \<^verbatim>\<open>isFullyVerified\<close>, the virtual \<^verbatim>\<open>fullName\<close>, what \<^verbatim>\<open>save()\<close> of a new document
  yields (the document with its id and defaults, or the error thrown), and what the
  schema's validators make of an update (\<^verbatim>\<open>runValidators: true\<close>).
\<close>

record TradingRegistration =
  isObjectId :: "string \<Rightarrow> bool"
  isFullyVerified :: "registration \<Rightarrow> bool"
  fullName :: "registration \<Rightarrow> string"
  save :: "collection \<Rightarrow> registration_data \<Rightarrow> js_error + (string \<times> registration)"
  applyBody :: "registration \<Rightarrow> (string \<times> string) list \<Rightarrow> js_error + registration"

section \<open>User form submissions: data model\<close>

text \<open>
  What mongoose's Date cast makes of the raw \<^verbatim>\<open>dateOfBirth\<close> of a request: nothing
  (absent, null or the empty string), a value that is no date (kept for the message),
  or a time in milliseconds since the epoch.
\<close>

datatype date_field = DateAbsent | DateInvalid string | DateMs int

text \<open>The object given to \<^verbatim>\<open>new UserForm({...})\<close>; \<open>None\<close> is \<^verbatim>\<open>undefined\<close>.\<close>

record user_form_input =
  in_firstName :: "string option"
  in_lastName :: "string option"
  in_email :: "string option"
  in_phone :: "string option"
  in_dateOfBirth :: date_field
  in_address :: "string option"
  in_city :: "string option"
  in_state :: "string option"
  in_pincode :: "string option"
  in_aadharNumber :: "string option"
  in_aadharFile :: "string option"
  in_signatureFile :: "string option"
  in_agreeTerms :: "bool option"
  in_agreeMarketing :: "bool option"

text \<open>A stored document of the UserForm collection (\<^verbatim>\<open>timestamps: true\<close>).\<close>

record user_form =
  uf_firstName :: string
  uf_lastName :: string
  uf_email :: string
  uf_phone :: string
  uf_dateOfBirth :: int
  uf_address :: string
  uf_city :: string
  uf_state :: string
  uf_pincode :: string
  uf_aadharNumber :: string
  uf_aadharFile :: string
  uf_signatureFile :: string
  uf_agreeTerms :: bool
  uf_agreeMarketing :: bool
  uf_createdAt :: int
  uf_updatedAt :: int

section \<open>Payments: data model\<close>

text \<open>
  Payment amounts carry the rupee sign, which is no 8-bit character: strings of a
  payment request are lists of UTF-16 code units, as JavaScript indexes them.
  \<open>asc\<close> embeds an ASCII literal.
\<close>

type_synonym ustring = "nat list"

definition asc :: "string \<Rightarrow> ustring" where
  "asc s = map of_char s"

text \<open>
  A Number: not-a-number, the infinities, or a finite double, given as the rational
  it is. The sign of zero is not kept.
\<close>

datatype jsnum = NaN | PosInf | NegInf | Fin rat

text \<open>
  A value of a JSON or urlencoded request body. \<open>JObject c t\<close> is an array or an
  object, described by what the libraries make of it: \<open>c\<close> is the string that
  mongoose's String cast gives for it (its \<^verbatim>\<open>_id\<close>, when that is a non-empty string)
  and \<open>None\<close> when the cast fails, as it does for an array and for a plain object;
  \<open>t\<close> is its conversion to a string, and \<open>None\<close> when the conversion throws.
\<close>

datatype jsval =
    JUndefined | JNull | JBool bool | JNum jsnum | JStr ustring
  | JObject "ustring option" "ustring option"

text \<open>
  A stored value. \<open>B_number_string n\<close> is the string that \<^verbatim>\<open>n.toString()\<close> gives for
  the number \<open>n\<close>; its digits are not computed.
\<close>

datatype bson = B_null | B_string ustring | B_number_string jsnum | B_number jsnum | B_date int

record payment =
  pay_userName :: bson
  pay_courseName :: bson
  pay_amount :: bson
  pay_paymentStatus :: bson
  pay_userPhone :: "bson option"
  pay_userEmail :: "bson option"
  pay_createdAt :: int

record payment_body =
  userName :: jsval
  courseName :: jsval
  amount :: jsval
  paymentStatus :: jsval
  userPhone :: jsval
  userEmail :: jsval

section \<open>The state of the server\<close>

text \<open>
  The three collections and the set of paths that exist on disk. \<^verbatim>\<open>fs.existsSync(p)\<close>
  is \<open>p \<in> disk s\<close> and \<^verbatim>\<open>fs.unlinkSync(p)\<close> removes \<open>p\<close>.
\<close>

record server =
  db :: collection
  userforms :: "user_form list"
  payments :: "payment list"
  disk :: "string set"

definition existsSync :: "string set \<Rightarrow> string \<Rightarrow> bool" where
  "existsSync d p = (p \<in> d)"

definition unlinkSync :: "string set \<Rightarrow> string \<Rightarrow> string set" where
  "unlinkSync d p = d - {p}"

section \<open>Trading registrations: handlers\<close>

subsection \<open>Responses\<close>

datatype payload =
    NoPayload
  | Data_registration registration
  | Data_created string string "string option" string int
  | Data_status string string "string option"
  | Data_verify string verification_status bool
  | Data_stats "(string \<times> nat) list" nat nat "(bool \<times> nat) list"
  | Errors "(string \<times> string) list"
  | Error_detail string

record response =
  status :: nat
  success :: bool
  message :: "string option"
  payload :: payload

definition not_found :: response where
  "not_found = \<lparr>status = 404, success = False, message = Some ''Registration not found'',
     payload = NoPayload\<rparr>"

definition server_error :: "string \<Rightarrow> js_error \<Rightarrow> response" where
  "server_error m e = \<lparr>status = 500, success = False, message = Some m,
     payload = Error_detail (err_message e)\<rparr>"

subsection \<open>Queries of the model\<close>

definition findById :: "TradingRegistration \<Rightarrow> collection \<Rightarrow> string \<Rightarrow> js_error + registration option" where
  "findById M c i = (if isObjectId M i then Inr (map_of c i) else Inl (CastError_ObjectId i))"

text \<open>
  \<^verbatim>\<open>findByIdAndUpdate(id, update, {new: true})\<close>: the update is applied to the stored
  document and the updated document is returned; \<^verbatim>\<open>null\<close> when no document has the id.
\<close>

definition findByIdAndUpdate ::
  "TradingRegistration \<Rightarrow> collection \<Rightarrow> string \<Rightarrow> (registration \<Rightarrow> registration)
     \<Rightarrow> js_error + (registration option \<times> collection)" where
  "findByIdAndUpdate M c i f =
     (if isObjectId M i then
        (case map_of c i of
           None \<Rightarrow> Inr (None, c)
         | Some r \<Rightarrow> Inr (Some (f r), AList.update i (f r) c))
      else Inl (CastError_ObjectId i))"


subsection \<open>GET /:id\<close>

definition get_by_id :: "TradingRegistration \<Rightarrow> server \<Rightarrow> string \<Rightarrow> response \<times> server" where
  "get_by_id M s i =
     (case findById M (db s) i of
        Inr None \<Rightarrow> (not_found, s)
      | Inr (Some registration) \<Rightarrow>
          (\<lparr>status = 200, success = True, message = None,
            payload = Data_registration registration\<rparr>, s)
      | Inl error \<Rightarrow>
          if err_kind error = ''ObjectId'' then (not_found, s)
          else (server_error ''Failed to fetch registration'' error, s))"

subsection \<open>PUT /:id/status\<close>

definition validStatuses :: "string list" where
  "validStatuses = [''pending'', ''approved'', ''rejected'', ''under_review'']"

text \<open>
  \<^verbatim>\<open>{registrationStatus: status, ...(adminNotes && {adminNotes})}\<close>: the notes are
  written only when the request carries a non-empty string.
\<close>

definition status_update :: "string \<Rightarrow> string option \<Rightarrow> registration \<Rightarrow> registration" where
  "status_update st notes r =
     (case notes of
        None \<Rightarrow> r\<lparr>registrationStatus := st\<rparr>
      | Some n \<Rightarrow> if n = [] then r\<lparr>registrationStatus := st\<rparr>
                  else r\<lparr>registrationStatus := st, adminNotes := Some n\<rparr>)"

definition put_status ::
  "TradingRegistration \<Rightarrow> server \<Rightarrow> string \<Rightarrow> string \<Rightarrow> string option \<Rightarrow> response \<times> server" where
  "put_status M s i st notes =
     (if st \<notin> set validStatuses then
        (\<lparr>status = 400, success = False, message = Some ''Invalid status value'',
          payload = NoPayload\<rparr>, s)
      else
        (case findByIdAndUpdate M (db s) i (status_update st notes) of
           Inl error \<Rightarrow> (server_error ''Failed to update registration status'' error, s)
         | Inr (None, c) \<Rightarrow> (not_found, s)
         | Inr (Some registration, c) \<Rightarrow>
             (\<lparr>status = 200, success = True,
               message = Some ''Registration status updated successfully'',
               payload = Data_status i (registrationStatus registration) (adminNotes registration)\<rparr>,
              s\<lparr>db := c\<rparr>)))"

subsection \<open>PUT /:id/verify\<close>

definition validTypes :: "string list" where
  "validTypes = [''aadharVerified'', ''panVerified'', ''signatureVerified'',
     ''emailVerified'', ''phoneVerified'']"

text \<open>
  The update \<^verbatim>\<open>{ ['verificationStatus.' + verificationType]: isVerified }\<close> sets the
  one path it names. A name that is no path of the sub-document sets nothing; the
  handler lets no such name through.
\<close>

definition set_flag :: "string \<Rightarrow> bool \<Rightarrow> verification_status \<Rightarrow> verification_status" where
  "set_flag t b v =
     (if t = ''aadharVerified'' then v\<lparr>aadharVerified := b\<rparr>
      else if t = ''panVerified'' then v\<lparr>panVerified := b\<rparr>
      else if t = ''signatureVerified'' then v\<lparr>signatureVerified := b\<rparr>
      else if t = ''emailVerified'' then v\<lparr>emailVerified := b\<rparr>
      else if t = ''phoneVerified'' then v\<lparr>phoneVerified := b\<rparr>
      else v)"

definition get_flag :: "string \<Rightarrow> verification_status \<Rightarrow> bool option" where
  "get_flag t v =
     (if t = ''aadharVerified'' then Some (aadharVerified v)
      else if t = ''panVerified'' then Some (panVerified v)
      else if t = ''signatureVerified'' then Some (signatureVerified v)
      else if t = ''emailVerified'' then Some (emailVerified v)
      else if t = ''phoneVerified'' then Some (phoneVerified v)
      else None)"

definition verify_update :: "string \<Rightarrow> bool \<Rightarrow> registration \<Rightarrow> registration" where
  "verify_update t b r = r\<lparr>verificationStatus := set_flag t b (verificationStatus r)\<rparr>"

definition put_verify ::
  "TradingRegistration \<Rightarrow> server \<Rightarrow> string \<Rightarrow> string \<Rightarrow> bool \<Rightarrow> response \<times> server" where
  "put_verify M s i verificationType isVerified =
     (if verificationType \<notin> set validTypes then
        (\<lparr>status = 400, success = False, message = Some ''Invalid verification type'',
          payload = NoPayload\<rparr>, s)
      else
        (case findByIdAndUpdate M (db s) i (verify_update verificationType isVerified) of
           Inl error \<Rightarrow> (server_error ''Failed to update verification status'' error, s)
         | Inr (None, c) \<Rightarrow> (not_found, s)
         | Inr (Some registration, c) \<Rightarrow>
             (\<lparr>status = 200, success = True,
               message = Some ''Verification status updated successfully'',
               payload = Data_verify i (verificationStatus registration)
                 (isFullyVerified M registration)\<rparr>,
              s\<lparr>db := c\<rparr>)))"

subsection \<open>handleRegistrationErrors\<close>

text \<open>\<^verbatim>\<open>c.toUpperCase()\<close> of one character; index key names are ASCII schema paths.\<close>

definition toUpperCase_char :: "char \<Rightarrow> char" where
  "toUpperCase_char c =
     (let n = (of_char c :: nat) in if 97 \<le> n \<and> n \<le> 122 then char_of (n - 32) else c)"

definition capitalize :: "string \<Rightarrow> string" where
  "capitalize field = (case field of [] \<Rightarrow> [] | c # cs \<Rightarrow> toUpperCase_char c # cs)"

text \<open>
  The field-keyed error map. \<open>None\<close> is the TypeError of \<^verbatim>\<open>field.charAt\<close> when a
  duplicate-key error carries no key pattern
  (\<^verbatim>\<open>Object.keys(error.keyPattern)[0]\<close> is then \<^verbatim>\<open>undefined\<close>).
\<close>

definition handleRegistrationErrors :: "js_error \<Rightarrow> (string \<times> string) list option" where
  "handleRegistrationErrors error =
     (if err_name error = ''ValidationError'' then Some (err_errors error)
      else if err_name error = ''MongoServerError'' \<and> err_code error = Some 11000 then
        (case err_keyPattern error of
           [] \<Rightarrow> None
         | field # _ \<Rightarrow>
             Some [(field, capitalize field @ '' already exists. Please use a different ''
                      @ field @ ''.'')])
      else if str_includes (err_message error) ''already exists'' then
        Some [(''general'', err_message error)]
      else if str_includes (err_message error) ''Invalid file type'' then
        Some [(''file'', err_message error)]
      else
        Some [(''general'',
               if err_message error = [] then ''An unexpected error occurred. Please try again.''
               else err_message error)])"

subsection \<open>Uploaded files of a request\<close>

text \<open>
  \<^verbatim>\<open>req.files\<close>: absent when the request is not multipart, else the arrays of stored
  files keyed by field name.
\<close>

type_synonym req_files = "(string \<times> multer_file list) list option"

definition formatFileData :: "multer_file option \<Rightarrow> file_data option" where
  "formatFileData file =
     (case file of
        None \<Rightarrow> None
      | Some f \<Rightarrow> Some \<lparr>fd_filename = filename f, fd_originalName = originalname f,
          fd_mimetype = mimetype f, fd_size = fsize f, fd_path = path f\<rparr>)"

text \<open>\<^verbatim>\<open>req.files.<field>\<close>, and the element \<^verbatim>\<open>[0]\<close> of such an array.\<close>

definition files_field :: "req_files \<Rightarrow> string \<Rightarrow> multer_file list option" where
  "files_field files k = (case files of None \<Rightarrow> None | Some fs \<Rightarrow> map_of fs k)"

definition first_file :: "multer_file list \<Rightarrow> multer_file option" where
  "first_file a = (case a of [] \<Rightarrow> None | f # _ \<Rightarrow> Some f)"

text \<open>
  \<^verbatim>\<open>if (fs.existsSync(p)) fs.unlinkSync(p)\<close>, and the clean-up loop of the catch
  blocks over \<^verbatim>\<open>Object.values(req.files).flat()\<close>.
\<close>

definition unlink_if_exists :: "string set \<Rightarrow> string \<Rightarrow> string set" where
  "unlink_if_exists d p = (if existsSync d p then unlinkSync d p else d)"

definition uploaded :: "req_files \<Rightarrow> multer_file list" where
  "uploaded files = (case files of None \<Rightarrow> [] | Some fs \<Rightarrow> concat (map snd fs))"

definition cleanup_uploads :: "string set \<Rightarrow> req_files \<Rightarrow> string set" where
  "cleanup_uploads d files = foldl (\<lambda>d' file. unlink_if_exists d' (path file)) d (uploaded files)"

definition failure_response :: "string \<Rightarrow> js_error \<Rightarrow> response option" where
  "failure_response m error =
     (case handleRegistrationErrors error of
        None \<Rightarrow> None
      | Some errors \<Rightarrow>
          Some \<lparr>status = 400, success = False, message = Some m, payload = Errors errors\<rparr>)"

subsection \<open>POST /\<close>

text \<open>
  The handler proper, entered after the upload middleware has stored the files of
  \<open>files\<close>. The response is \<open>None\<close> when the catch block itself throws.
\<close>

definition registrationData :: "(string \<times> string) list \<Rightarrow> req_files \<Rightarrow> registration_data" where
  "registrationData body files =
     \<lparr>rd_body = body,
      rd_aadharFile =
        (case files_field files ''aadharFile'' of
           None \<Rightarrow> None | Some a \<Rightarrow> formatFileData (first_file a)),
      rd_signatureFile =
        (case files_field files ''signatureFile'' of
           None \<Rightarrow> None | Some a \<Rightarrow> formatFileData (first_file a))\<rparr>"

definition post_create ::
  "TradingRegistration \<Rightarrow> server \<Rightarrow> (string \<times> string) list \<Rightarrow> req_files
     \<Rightarrow> response option \<times> server" where
  "post_create M s body files =
     (case save M (db s) (registrationData body files) of
           Inr (i, registration) \<Rightarrow>
             (Some \<lparr>status = 201, success = True,
                message = Some ''Registration submitted successfully!'',
                payload = Data_created i (fullName M registration)
                  (map_of (reg_fields registration) ''email'')
                  (registrationStatus registration) (submissionDate registration)\<rparr>,
              s\<lparr>db := db s @ [(i, registration)]\<rparr>)
         | Inl error \<Rightarrow>
             (failure_response ''Registration failed'' error,
              s\<lparr>disk := cleanup_uploads (disk s) files\<rparr>))"

subsection \<open>PUT /:id\<close>

text \<open>
  For a file field present in the request: the stored file of the field is unlinked
  if the record has one and it exists on disk.
\<close>

definition supersede :: "string set \<Rightarrow> file_data option \<Rightarrow> multer_file list option \<Rightarrow> string set" where
  "supersede d old new =
     (case new of
        None \<Rightarrow> d
      | Some a \<Rightarrow> (case old of None \<Rightarrow> d | Some f \<Rightarrow> unlink_if_exists d (fd_path f)))"

definition replace_file :: "file_data option \<Rightarrow> multer_file list option \<Rightarrow> file_data option" where
  "replace_file old new = (case new of None \<Rightarrow> old | Some a \<Rightarrow> formatFileData (first_file a))"

definition put_update ::
  "TradingRegistration \<Rightarrow> server \<Rightarrow> string \<Rightarrow> (string \<times> string) list \<Rightarrow> req_files
     \<Rightarrow> response option \<times> server" where
  "put_update M s i body files =
     (case findById M (db s) i of
        Inl error \<Rightarrow>
          (failure_response ''Failed to update registration'' error,
           s\<lparr>disk := cleanup_uploads (disk s) files\<rparr>)
      | Inr None \<Rightarrow> (Some not_found, s)
      | Inr (Some registration) \<Rightarrow>
          (let d1 = supersede (disk s) (aadharFile registration) (files_field files ''aadharFile'');
               d2 = supersede d1 (panFile registration) (files_field files ''panFile'');
               d3 = supersede d2 (signatureFile registration) (files_field files ''signatureFile'')
           in case applyBody M registration body of
                Inl error \<Rightarrow>
                  (failure_response ''Failed to update registration'' error,
                   s\<lparr>disk := cleanup_uploads d3 files\<rparr>)
              | Inr r \<Rightarrow>
                  (let updatedRegistration =
                         r\<lparr>aadharFile := replace_file (aadharFile r) (files_field files ''aadharFile''),
                           panFile := replace_file (panFile r) (files_field files ''panFile''),
                           signatureFile :=
                             replace_file (signatureFile r) (files_field files ''signatureFile'')\<rparr>
                   in (Some \<lparr>status = 200, success = True,
                          message = Some ''Registration updated successfully'',
                          payload = Data_registration updatedRegistration\<rparr>,
                       s\<lparr>db := AList.update i updatedRegistration (db s), disk := d3\<rparr>))))"



subsection \<open>DELETE /:id\<close>



subsection \<open>GET /stats\<close>


text \<open>The \<^verbatim>\<open>$project\<close> stage: \<^verbatim>\<open>fullyVerified\<close> is the \<^verbatim>\<open>$and\<close> of four flags.\<close>

definition fullyVerified :: "registration \<Rightarrow> bool" where
  "fullyVerified r =
     (aadharVerified (verificationStatus r) \<and> signatureVerified (verificationStatus r) \<and>
      emailVerified (verificationStatus r) \<and> phoneVerified (verificationStatus r))"



section \<open>File intake\<close>

text \<open>
  \<^verbatim>\<open>path.extname\<close> (POSIX): trailing slashes are dropped, the last segment is taken;
  the extension runs from its last dot, and is empty when the segment has no dot, when
  its only dot is its first character, or when the segment is \<^verbatim>\<open>..\<close>.
\<close>

definition path_extname :: "string \<Rightarrow> string" where
  "path_extname p =
     (let q = rev (dropWhile (\<lambda>c. c = CHR ''/'') (rev p));
          seg = rev (takeWhile (\<lambda>c. c \<noteq> CHR ''/'') (rev q));
          e = rev (takeWhile (\<lambda>c. c \<noteq> CHR ''.'') (rev seg))
      in if CHR ''.'' \<notin> set seg then []
         else if length e + 1 = length seg then []
         else if seg = ''..'' then []
         else CHR ''.'' # e)"

text \<open>\<^verbatim>\<open>s.toLowerCase()\<close> on 8-bit code units: A to Z, and the Latin-1 capitals.\<close>

definition toLowerCase_char :: "char \<Rightarrow> char" where
  "toLowerCase_char c =
     (let n = (of_char c :: nat)
      in if (65 \<le> n \<and> n \<le> 90) \<or> (192 \<le> n \<and> n \<le> 222 \<and> n \<noteq> 215) then char_of (n + 32) else c)"

definition toLowerCase :: "string \<Rightarrow> string" where
  "toLowerCase s = map toLowerCase_char s"

text \<open>
  A regular expression that is an alternation of literals, such as
  \<^verbatim>\<open>/jpeg|jpg|png|pdf/\<close>, is the list of its alternatives. It is not anchored:
  \<^verbatim>\<open>test\<close> holds when one alternative occurs somewhere in the string.
\<close>

definition regex_test :: "string list \<Rightarrow> string \<Rightarrow> bool" where
  "regex_test alts s = list_ex (str_includes s) alts"

fun regex_source :: "string list \<Rightarrow> string" where
  "regex_source [] = []"
| "regex_source [a] = a"
| "regex_source (a # b # bs) = a @ ''|'' @ regex_source (b # bs)"

text \<open>\<^verbatim>\<open>allowedTypes[file.fieldname] || /jpeg|jpg|png|pdf/\<close>\<close>

definition allowedTypes :: "string \<Rightarrow> string list" where
  "allowedTypes field =
     (if field = ''aadharFile'' then [''jpeg'', ''jpg'', ''png'', ''pdf'']
      else if field = ''signatureFile'' then [''jpeg'', ''jpg'', ''png'']
      else [''jpeg'', ''jpg'', ''png'', ''pdf''])"

definition fileFilter :: "multer_file \<Rightarrow> js_error + bool" where
  "fileFilter file =
     (let fileType = allowedTypes (fieldname file);
          extname = regex_test fileType (toLowerCase (path_extname (originalname file)));
          mimetype_ok = regex_test fileType (mimetype file)
      in if mimetype_ok \<and> extname then Inr True
         else Inl (mk_error ''Error''
                (''Invalid file type for '' @ fieldname file @ ''. Only '' @ regex_source fileType
                   @ '' files are allowed.'')))"

text \<open>\<^verbatim>\<open>limits: { fileSize: 5 * 1024 * 1024 }\<close>\<close>

definition fileSize :: nat where
  "fileSize = 5 * 1024 * 1024"

text \<open>\<^verbatim>\<open>upload.fields([{name: 'aadharFile', maxCount: 1}, {name: 'signatureFile', maxCount: 1}])\<close>\<close>

definition uploadFields_spec :: "(string \<times> nat) list" where
  "uploadFields_spec = [(''aadharFile'', 1), (''signatureFile'', 1)]"

subsection \<open>The upload middleware\<close>

text \<open>
  The multer middleware, as far as the routes depend on it. The file parts of a
  multipart request come in order, each already described by the object multer would
  store for it (generated name and path included). A part is refused when its field
  is not declared or has no file left (\<^verbatim>\<open>LIMIT_UNEXPECTED_FILE\<close>), when the file
  filter refuses it, or when it is larger than the limit (\<^verbatim>\<open>LIMIT_FILE_SIZE\<close>). On a
  refusal multer removes what it stored for the request and passes the error to
  \<^verbatim>\<open>next\<close>; otherwise the files are on disk and \<^verbatim>\<open>req.files\<close> holds them by field.
\<close>

definition MulterError :: "string \<Rightarrow> js_error" where
  "MulterError m = mk_error ''MulterError'' m"

definition append_file :: "(string \<times> multer_file list) list \<Rightarrow> multer_file \<Rightarrow> (string \<times> multer_file list) list" where
  "append_file acc f =
     (case map_of acc (fieldname f) of
        None \<Rightarrow> acc @ [(fieldname f, [f])]
      | Some a \<Rightarrow> AList.update (fieldname f) (a @ [f]) acc)"

fun multer_loop ::
  "(string \<times> nat) list \<Rightarrow> (string \<times> multer_file list) list \<Rightarrow> string set \<Rightarrow> multer_file list
     \<Rightarrow> js_error + ((string \<times> multer_file list) list \<times> string set)" where
  "multer_loop left acc d [] = Inr (acc, d)"
| "multer_loop left acc d (f # fs) =
     (case map_of left (fieldname f) of
        None \<Rightarrow> Inl (MulterError ''Unexpected field'')
      | Some 0 \<Rightarrow> Inl (MulterError ''Unexpected field'')
      | Some (Suc n) \<Rightarrow>
          (case fileFilter f of
             Inl e \<Rightarrow> Inl e
           | Inr False \<Rightarrow> multer_loop (AList.update (fieldname f) n left) acc d fs
           | Inr True \<Rightarrow>
               if fileSize < fsize f then Inl (MulterError ''File too large'')
               else multer_loop (AList.update (fieldname f) n left) (append_file acc f)
                      (insert (path f) d) fs))"

definition uploadFields :: "string set \<Rightarrow> multer_file list option \<Rightarrow> js_error + (req_files \<times> string set)" where
  "uploadFields d parts =
     (case parts of
        None \<Rightarrow> Inr (None, d)
      | Some ps \<Rightarrow>
          (case multer_loop uploadFields_spec [] d ps of
             Inl e \<Rightarrow> Inl e
           | Inr (acc, d') \<Rightarrow> Inr (Some acc, d')))"

subsection \<open>The routes with their middleware\<close>

text \<open>
  \<^verbatim>\<open>router.post('/', uploadFields, handler)\<close>: Express runs the handler only when the
  middleware calls \<^verbatim>\<open>next()\<close> without an error. An error goes to the error-handling
  middleware; the application declares none, so Express's final handler answers, with
  the error's \<^verbatim>\<open>status\<close> if it has one and with 500 otherwise. The errors of the upload
  middleware have none.
\<close>

datatype route_result = Handled "response option" | Next_error js_error

definition http_status :: "route_result \<Rightarrow> nat option" where
  "http_status r =
     (case r of
        Handled None \<Rightarrow> None
      | Handled (Some res) \<Rightarrow> Some (status res)
      | Next_error e \<Rightarrow> Some 500)"

definition route_post ::
  "TradingRegistration \<Rightarrow> server \<Rightarrow> (string \<times> string) list \<Rightarrow> multer_file list option
     \<Rightarrow> route_result \<times> server" where
  "route_post M s body parts =
     (case uploadFields (disk s) parts of
        Inl e \<Rightarrow> (Next_error e, s)
      | Inr (files, d) \<Rightarrow>
          (case post_create M (s\<lparr>disk := d\<rparr>) body files of (r, s') \<Rightarrow> (Handled r, s')))"

definition route_put ::
  "TradingRegistration \<Rightarrow> server \<Rightarrow> string \<Rightarrow> (string \<times> string) list \<Rightarrow> multer_file list option
     \<Rightarrow> route_result \<times> server" where
  "route_put M s i body parts =
     (case uploadFields (disk s) parts of
        Inl e \<Rightarrow> (Next_error e, s)
      | Inr (files, d) \<Rightarrow>
          (case put_update M (s\<lparr>disk := d\<rparr>) i body files of (r, s') \<Rightarrow> (Handled r, s')))"

section \<open>The UserForm schema\<close>

subsection \<open>Setters and patterns\<close>

text \<open>\<^verbatim>\<open>trim: true\<close> is \<^verbatim>\<open>String.prototype.trim\<close>: white space and line terminators.\<close>

definition js_space :: "char \<Rightarrow> bool" where
  "js_space c = ((of_char c :: nat) \<in> {9, 10, 11, 12, 13, 32, 160})"

definition trim :: "string \<Rightarrow> string" where
  "trim s = rev (dropWhile js_space (rev (dropWhile js_space s)))"

text \<open>\<^verbatim>\<open>/^\d{n}$/\<close>: exactly \<open>n\<close> characters, each an ASCII digit.\<close>

definition is_digit :: "char \<Rightarrow> bool" where
  "is_digit c = (48 \<le> (of_char c :: nat) \<and> (of_char c :: nat) \<le> 57)"

definition digits_exactly :: "nat \<Rightarrow> string \<Rightarrow> bool" where
  "digits_exactly n s = (length s = n \<and> list_all is_digit s)"

text \<open>
  \<^verbatim>\<open>/.+@.+\..+/\<close>, not anchored. \<open>dot\<close> is what \<^verbatim>\<open>.\<close> matches: any character but a
  line terminator. \<open>re_dot_any s\<close>: the string starts with a literal dot and one more
  character; \<open>re_mid s\<close>: \<^verbatim>\<open>.+\..+\<close> matches at the start of \<open>s\<close>; \<open>re_from s\<close>: the whole
  pattern matches at the start of \<open>s\<close>; \<open>email_test s\<close>: it matches somewhere.
\<close>

definition dot :: "char \<Rightarrow> bool" where
  "dot c = (c \<noteq> CHR 0x0A \<and> c \<noteq> CHR 0x0D)"

definition re_dot_any :: "string \<Rightarrow> bool" where
  "re_dot_any s = (case s of c # d # _ \<Rightarrow> c = CHR ''.'' \<and> dot d | _ \<Rightarrow> False)"

fun re_mid :: "string \<Rightarrow> bool" where
  "re_mid [] = False"
| "re_mid (c # cs) = (dot c \<and> (re_dot_any cs \<or> re_mid cs))"

definition re_at_mid :: "string \<Rightarrow> bool" where
  "re_at_mid s = (case s of a # r \<Rightarrow> a = CHR ''@'' \<and> re_mid r | [] \<Rightarrow> False)"

fun re_from :: "string \<Rightarrow> bool" where
  "re_from [] = False"
| "re_from (c # cs) = (dot c \<and> (re_at_mid cs \<or> re_from cs))"

fun email_test :: "string \<Rightarrow> bool" where
  "email_test [] = False"
| "email_test (c # cs) = (re_from (c # cs) \<or> email_test cs)"

subsection \<open>Validation\<close>

text \<open>
  Each path runs its validators in order, \<^verbatim>\<open>required\<close> first, and reports the message
  of the first that fails. A required string fails when it is absent or empty.
\<close>

definition trimmed :: "string option \<Rightarrow> string option" where
  "trimmed v = map_option trim v"

definition required_string :: "string \<Rightarrow> string option \<Rightarrow> (string \<Rightarrow> string option) \<Rightarrow> string option" where
  "required_string msg v rest =
     (case v of None \<Rightarrow> Some msg | Some s \<Rightarrow> if s = [] then Some msg else rest s)"

definition check_firstName :: "string option \<Rightarrow> string option" where
  "check_firstName v =
     required_string ''First name is required'' (trimmed v)
       (\<lambda>s. if length s < 2 then Some ''First name must be at least 2 characters''
            else if 50 < length s then Some ''First name cannot exceed 50 characters''
            else None)"

definition check_lastName :: "string option \<Rightarrow> string option" where
  "check_lastName v =
     required_string ''Last name is required'' (trimmed v)
       (\<lambda>s. if length s < 2 then Some ''Last name must be at least 2 characters''
            else if 50 < length s then Some ''Last name cannot exceed 50 characters''
            else None)"

definition check_email :: "string option \<Rightarrow> string option" where
  "check_email v =
     required_string ''Email is required'' (map_option toLowerCase (trimmed v))
       (\<lambda>s. if email_test s then None else Some ''Please enter a valid email address'')"

definition check_phone :: "string option \<Rightarrow> string option" where
  "check_phone v =
     required_string ''Phone number is required'' v
       (\<lambda>s. if digits_exactly 10 s then None else Some ''Phone number must be 10 digits'')"

text \<open>The validator \<^verbatim>\<open>value < new Date()\<close>, at the time \<open>now\<close> of the check.\<close>

definition check_dateOfBirth :: "int \<Rightarrow> date_field \<Rightarrow> string option" where
  "check_dateOfBirth now v =
     (case v of
        DateAbsent \<Rightarrow> Some ''Date of birth is required''
      | DateInvalid raw \<Rightarrow>
          Some (''Cast to date failed for value '' @ [CHR 0x22] @ raw @ [CHR 0x22]
                  @ '' (type string) at path '' @ [CHR 0x22] @ ''dateOfBirth'' @ [CHR 0x22])
      | DateMs t \<Rightarrow> if t < now then None else Some ''Date of birth must be in the past'')"

definition check_address :: "string option \<Rightarrow> string option" where
  "check_address v =
     required_string ''Address is required'' v
       (\<lambda>s. if length s < 5 then Some ''Address must be at least 5 characters'' else None)"

definition check_city :: "string option \<Rightarrow> string option" where
  "check_city v = required_string ''City is required'' v (\<lambda>s. None)"

definition check_state :: "string option \<Rightarrow> string option" where
  "check_state v = required_string ''State is required'' v (\<lambda>s. None)"

definition check_pincode :: "string option \<Rightarrow> string option" where
  "check_pincode v =
     required_string ''Pincode is required'' v
       (\<lambda>s. if digits_exactly 6 s then None else Some ''Pincode must be 6 digits'')"

definition check_aadharNumber :: "string option \<Rightarrow> string option" where
  "check_aadharNumber v =
     required_string ''Aadhar number is required'' v
       (\<lambda>s. if digits_exactly 12 s then None else Some ''Aadhar number must be 12 digits'')"

definition check_aadharFile :: "string option \<Rightarrow> string option" where
  "check_aadharFile v = required_string ''Aadhar file is required'' v (\<lambda>s. None)"

definition check_signatureFile :: "string option \<Rightarrow> string option" where
  "check_signatureFile v = required_string ''Signature file is required'' v (\<lambda>s. None)"

definition check_agreeTerms :: "bool option \<Rightarrow> string option" where
  "check_agreeTerms v =
     (case v of
        None \<Rightarrow> Some ''You must agree to the terms''
      | Some b \<Rightarrow> if b = True then None else Some ''You must accept the terms and conditions'')"

definition keyed :: "string \<Rightarrow> string option \<Rightarrow> (string \<times> string) list" where
  "keyed k e = (case e of None \<Rightarrow> [] | Some m \<Rightarrow> [(k, m)])"

definition validate :: "int \<Rightarrow> user_form_input \<Rightarrow> (string \<times> string) list" where
  "validate now d =
     keyed ''firstName'' (check_firstName (in_firstName d)) @
     keyed ''lastName'' (check_lastName (in_lastName d)) @
     keyed ''email'' (check_email (in_email d)) @
     keyed ''phone'' (check_phone (in_phone d)) @
     keyed ''dateOfBirth'' (check_dateOfBirth now (in_dateOfBirth d)) @
     keyed ''address'' (check_address (in_address d)) @
     keyed ''city'' (check_city (in_city d)) @
     keyed ''state'' (check_state (in_state d)) @
     keyed ''pincode'' (check_pincode (in_pincode d)) @
     keyed ''aadharNumber'' (check_aadharNumber (in_aadharNumber d)) @
     keyed ''aadharFile'' (check_aadharFile (in_aadharFile d)) @
     keyed ''signatureFile'' (check_signatureFile (in_signatureFile d)) @
     keyed ''agreeTerms'' (check_agreeTerms (in_agreeTerms d))"

subsection \<open>Saving\<close>

definition str_value :: "string option \<Rightarrow> string" where
  "str_value v = (case v of None \<Rightarrow> [] | Some s \<Rightarrow> s)"

text \<open>The document as stored: setters applied, \<^verbatim>\<open>agreeMarketing\<close> defaulted, timestamps set.\<close>

definition document :: "int \<Rightarrow> user_form_input \<Rightarrow> user_form" where
  "document now d =
     \<lparr>uf_firstName = trim (str_value (in_firstName d)),
      uf_lastName = trim (str_value (in_lastName d)),
      uf_email = toLowerCase (trim (str_value (in_email d))),
      uf_phone = str_value (in_phone d),
      uf_dateOfBirth = (case in_dateOfBirth d of DateMs t \<Rightarrow> t | _ \<Rightarrow> 0),
      uf_address = str_value (in_address d),
      uf_city = str_value (in_city d),
      uf_state = str_value (in_state d),
      uf_pincode = str_value (in_pincode d),
      uf_aadharNumber = str_value (in_aadharNumber d),
      uf_aadharFile = str_value (in_aadharFile d),
      uf_signatureFile = str_value (in_signatureFile d),
      uf_agreeTerms = (case in_agreeTerms d of None \<Rightarrow> False | Some b \<Rightarrow> b),
      uf_agreeMarketing = (case in_agreeMarketing d of None \<Rightarrow> False | Some b \<Rightarrow> b),
      uf_createdAt = now,
      uf_updatedAt = now\<rparr>"

text \<open>
  \<^verbatim>\<open>new UserForm(d).save()\<close>: the document is validated; with no error it joins the
  collection, else a ValidationError with the field-keyed messages is thrown and
  nothing is written.
\<close>

definition UserForm_save :: "int \<Rightarrow> user_form list \<Rightarrow> user_form_input \<Rightarrow> js_error + user_form list" where
  "UserForm_save now forms d =
     (case validate now d of
        [] \<Rightarrow> Inr (forms @ [document now d])
      | e # es \<Rightarrow> Inl (ValidationError (e # es)))"

subsection \<open>The field rules\<close>

text \<open>
  The rules of a submission as the specification words them, on the values given to
  the schema: names of 2 to 50 characters (once trimmed), an email that matches the
  pattern, a phone of exactly 10 digits, a date of birth before the current time, an
  address of at least 5 characters, city and state present, a pincode of exactly 6
  digits, an Aadhar number of exactly 12 digits, both file paths present, and
  \<^verbatim>\<open>agreeTerms\<close> the boolean true.
\<close>

definition present :: "string option \<Rightarrow> (string \<Rightarrow> bool) \<Rightarrow> bool" where
  "present v P = (case v of None \<Rightarrow> False | Some s \<Rightarrow> s \<noteq> [] \<and> P s)"

definition field_rules :: "int \<Rightarrow> user_form_input \<Rightarrow> bool" where
  "field_rules now d =
     (present (trimmed (in_firstName d)) (\<lambda>s. 2 \<le> length s \<and> length s \<le> 50) \<and>
      present (trimmed (in_lastName d)) (\<lambda>s. 2 \<le> length s \<and> length s \<le> 50) \<and>
      present (map_option toLowerCase (trimmed (in_email d))) email_test \<and>
      present (in_phone d) (digits_exactly 10) \<and>
      (case in_dateOfBirth d of DateMs t \<Rightarrow> t < now | _ \<Rightarrow> False) \<and>
      present (in_address d) (\<lambda>s. 5 \<le> length s) \<and>
      present (in_city d) (\<lambda>s. True) \<and>
      present (in_state d) (\<lambda>s. True) \<and>
      present (in_pincode d) (digits_exactly 6) \<and>
      present (in_aadharNumber d) (digits_exactly 12) \<and>
      present (in_aadharFile d) (\<lambda>s. True) \<and>
      present (in_signatureFile d) (\<lambda>s. True) \<and>
      in_agreeTerms d = Some True)"

section \<open>Generic registration: submitForm\<close>

text \<open>The text fields of the multipart body; \<open>None\<close> is \<^verbatim>\<open>undefined\<close>.\<close>

record submit_body =
  firstName :: "string option"
  lastName :: "string option"
  email :: "string option"
  phone :: "string option"
  dateOfBirth :: date_field
  address :: "string option"
  city :: "string option"
  state :: "string option"
  pincode :: "string option"
  aadharNumber :: "string option"
  agreeTerms :: "string option"
  agreeMarketing :: "string option"

text \<open>A response whose body is \<^verbatim>\<open>{ message }\<close> or \<^verbatim>\<open>{ message, error }\<close>.\<close>

record msg_response =
  ms_status :: nat
  ms_message :: string
  ms_error :: "js_error option"

text \<open>\<^verbatim>\<open>req.files?.<field>?.[0]?.path || null\<close>\<close>

definition file_path :: "req_files \<Rightarrow> string \<Rightarrow> string option" where
  "file_path files k =
     (case files_field files k of
        None \<Rightarrow> None
      | Some a \<Rightarrow>
          (case first_file a of
             None \<Rightarrow> None
           | Some f \<Rightarrow> if path f = [] then None else Some (path f)))"

definition truthy_str :: "string option \<Rightarrow> bool" where
  "truthy_str v = (case v of None \<Rightarrow> False | Some s \<Rightarrow> s \<noteq> [])"

definition newUser :: "submit_body \<Rightarrow> req_files \<Rightarrow> user_form_input" where
  "newUser body files =
     \<lparr>in_firstName = firstName body, in_lastName = lastName body,
      in_email = email body, in_phone = phone body,
      in_dateOfBirth = dateOfBirth body, in_address = address body,
      in_city = city body, in_state = state body, in_pincode = pincode body,
      in_aadharNumber = aadharNumber body,
      in_aadharFile = file_path files ''aadharFile'',
      in_signatureFile = file_path files ''signatureFile'',
      in_agreeTerms = Some (agreeTerms body = Some ''true''),
      in_agreeMarketing = Some (agreeMarketing body = Some ''true'')\<rparr>"

definition submitForm :: "int \<Rightarrow> server \<Rightarrow> submit_body \<Rightarrow> req_files \<Rightarrow> msg_response \<times> server" where
  "submitForm now s body files =
     (if \<not> truthy_str (firstName body) \<or> \<not> truthy_str (lastName body) \<or>
         \<not> truthy_str (email body) \<or> \<not> truthy_str (file_path files ''aadharFile'') \<or>
         \<not> truthy_str (file_path files ''signatureFile'')
      then (\<lparr>ms_status = 400, ms_message = ''Missing required fields or files.'',
              ms_error = None\<rparr>, s)
      else
        (case UserForm_save now (userforms s) (newUser body files) of
           Inr forms \<Rightarrow>
             (\<lparr>ms_status = 201, ms_message = ''Form submitted successfully!'',
               ms_error = None\<rparr>, s\<lparr>userforms := forms\<rparr>)
         | Inl error \<Rightarrow>
             (\<lparr>ms_status = 500, ms_message = ''Something went wrong. Please try again.'',
               ms_error = None\<rparr>, s)))"

section \<open>Payments\<close>

subsection \<open>Truthiness, and the conversion of an amount to a number\<close>

text \<open>\<^verbatim>\<open>!v\<close> is \<open>\<not> truthy v\<close>.\<close>

definition truthy :: "jsval \<Rightarrow> bool" where
  "truthy v =
     (case v of
        JUndefined \<Rightarrow> False
      | JNull \<Rightarrow> False
      | JBool b \<Rightarrow> b
      | JNum n \<Rightarrow> n \<noteq> NaN \<and> n \<noteq> Fin 0
      | JStr s \<Rightarrow> s \<noteq> []
      | JObject c t \<Rightarrow> True)"

text \<open>The class \<^verbatim>\<open>\s\<close> of a regular expression.\<close>

definition isWhiteSpace :: "nat \<Rightarrow> bool" where
  "isWhiteSpace c =
     (c \<in> {9, 10, 11, 12, 13, 32, 160, 5760, 8232, 8233, 8239, 8287, 12288, 65279} \<or>
      (8192 \<le> c \<and> c \<le> 8202))"

text \<open>\<^verbatim>\<open>amount.replace(/[<rupee sign>,\s]/g, '')\<close>; the rupee sign is U+20B9.\<close>

definition strip_amount :: "ustring \<Rightarrow> ustring" where
  "strip_amount a = filter (\<lambda>c. \<not> (c = 8377 \<or> c = 44 \<or> isWhiteSpace c)) a"

text \<open>
  The built-in \<^verbatim>\<open>parseFloat\<close> on strings is a parameter \<open>pf\<close> of the handler: which
  double it returns for a literal (rounding, overflow to an infinity, underflow to
  zero) is left to the language. \<^verbatim>\<open>cleanAmount\<close>: a string is stripped and parsed;
  any other value is converted to a string and parsed. The string of a number reads
  back as that number. \<open>None\<close> is the TypeError of a conversion that throws.
\<close>

definition cleanAmount :: "(ustring \<Rightarrow> jsnum) \<Rightarrow> jsval \<Rightarrow> jsnum option" where
  "cleanAmount pf v =
     (case v of
        JStr a \<Rightarrow> Some (pf (strip_amount a))
      | JNum n \<Rightarrow> Some n
      | JBool b \<Rightarrow> Some (pf (asc (if b then ''true'' else ''false'')))
      | JNull \<Rightarrow> Some (pf (asc ''null''))
      | JUndefined \<Rightarrow> Some (pf (asc ''undefined''))
      | JObject c t \<Rightarrow> map_option pf t)"

subsection \<open>The Payment schema\<close>

text \<open>
  The cast of a String path: \<^verbatim>\<open>undefined\<close> and \<^verbatim>\<open>null\<close> stay, a string is itself,
  a number or a boolean becomes its \<^verbatim>\<open>toString()\<close>, an array or an object becomes
  what the cast makes of it. The outer \<open>None\<close> is a cast error.
\<close>

definition castString :: "jsval \<Rightarrow> bson option option" where
  "castString v =
     (case v of
        JUndefined \<Rightarrow> Some None
      | JNull \<Rightarrow> Some (Some B_null)
      | JBool b \<Rightarrow> Some (Some (B_string (asc (if b then ''true'' else ''false''))))
      | JNum n \<Rightarrow> Some (Some (B_number_string n))
      | JStr a \<Rightarrow> Some (Some (B_string a))
      | JObject c t \<Rightarrow> (case c of None \<Rightarrow> None | Some a \<Rightarrow> Some (Some (B_string a))))"

definition is_empty_value :: "bson option \<Rightarrow> bool" where
  "is_empty_value v = (v = None \<or> v = Some B_null \<or> v = Some (B_string []))"

text \<open>\<^verbatim>\<open>{ type: String, required: true }\<close>\<close>

definition required_path :: "string \<Rightarrow> jsval \<Rightarrow> (string \<times> string) list" where
  "required_path k v =
     (case castString v of
        None \<Rightarrow> [(k, ''Cast to string failed at path '' @ k)]
      | Some x \<Rightarrow> if is_empty_value x then [(k, ''Path '' @ k @ '' is required.'')] else [])"

text \<open>\<^verbatim>\<open>{ type: String }\<close>\<close>

definition optional_path :: "string \<Rightarrow> jsval \<Rightarrow> (string \<times> string) list" where
  "optional_path k v =
     (case castString v of None \<Rightarrow> [(k, ''Cast to string failed at path '' @ k)] | Some x \<Rightarrow> [])"

definition paymentStatus_enum :: "ustring list" where
  "paymentStatus_enum = [asc ''Paid'', asc ''Pending'', asc ''Failed'']"

text \<open>
  \<^verbatim>\<open>{ type: String, enum: ['Paid', 'Pending', 'Failed'], default: 'Pending' }\<close>. The
  string of a number is none of the three words.
\<close>

definition enum_path :: "jsval \<Rightarrow> (string \<times> string) list" where
  "enum_path v =
     (case castString v of
        None \<Rightarrow> [(''paymentStatus'', ''Cast to string failed at path paymentStatus'')]
      | Some None \<Rightarrow> []
      | Some (Some B_null) \<Rightarrow> []
      | Some (Some (B_string a)) \<Rightarrow>
          if a \<in> set paymentStatus_enum then []
          else [(''paymentStatus'', ''Value is not a valid enum value for path paymentStatus.'')]
      | Some (Some x) \<Rightarrow>
          [(''paymentStatus'', ''Value is not a valid enum value for path paymentStatus.'')])"

definition stored :: "jsval \<Rightarrow> bson option" where
  "stored v = (case castString v of None \<Rightarrow> None | Some x \<Rightarrow> x)"

definition stored_or :: "bson \<Rightarrow> jsval \<Rightarrow> bson" where
  "stored_or dflt v = (case stored v of None \<Rightarrow> dflt | Some x \<Rightarrow> x)"

definition Payment_validate :: "payment_body \<Rightarrow> (string \<times> string) list" where
  "Payment_validate b =
     required_path ''userName'' (userName b) @
     required_path ''courseName'' (courseName b) @
     required_path ''amount'' (amount b) @
     enum_path (paymentStatus b) @
     optional_path ''userPhone'' (userPhone b) @
     optional_path ''userEmail'' (userEmail b)"

text \<open>
  \<^verbatim>\<open>new Payment(b).save()\<close> at time \<open>now\<close>. The default of \<^verbatim>\<open>paymentStatus\<close> applies
  when the value given is \<^verbatim>\<open>undefined\<close>.
\<close>

definition Payment_document :: "int \<Rightarrow> payment_body \<Rightarrow> payment" where
  "Payment_document now b =
     \<lparr>pay_userName = stored_or B_null (userName b),
      pay_courseName = stored_or B_null (courseName b),
      pay_amount = stored_or B_null (amount b),
      pay_paymentStatus = stored_or (B_string (asc ''Pending'')) (paymentStatus b),
      pay_userPhone = stored (userPhone b),
      pay_userEmail = stored (userEmail b),
      pay_createdAt = now\<rparr>"

definition Payment_save :: "int \<Rightarrow> payment list \<Rightarrow> payment_body \<Rightarrow> js_error + payment list" where
  "Payment_save now ps b =
     (case Payment_validate b of
        [] \<Rightarrow> Inr (ps @ [Payment_document now b])
      | e # es \<Rightarrow> Inl (ValidationError (e # es)))"

subsection \<open>savePayment\<close>

definition savePayment ::
  "(ustring \<Rightarrow> jsnum) \<Rightarrow> int \<Rightarrow> server \<Rightarrow> payment_body \<Rightarrow> msg_response \<times> server" where
  "savePayment pf now s body =
     (if \<not> truthy (userName body) \<or> \<not> truthy (courseName body) \<or> \<not> truthy (amount body) \<or>
         \<not> truthy (paymentStatus body)
      then (\<lparr>ms_status = 400,
              ms_message = ''userName, courseName, amount, and paymentStatus are required'',
              ms_error = None\<rparr>, s)
      else
        (case cleanAmount pf (amount body) of
           None \<Rightarrow>
             (\<lparr>ms_status = 500, ms_message = ''Server Error'',
               ms_error = Some (mk_error ''TypeError'' ''Cannot convert object to primitive value'')\<rparr>,
              s)
         | Some n \<Rightarrow>
             if n = NaN
             then (\<lparr>ms_status = 400,
                     ms_message = ''Invalid amount format. Please provide a valid number.'',
                     ms_error = None\<rparr>, s)
             else
               (case Payment_save now (payments s) (body\<lparr>amount := JNum n\<rparr>) of
                  Inr ps \<Rightarrow>
                    (\<lparr>ms_status = 201, ms_message = ''Payment saved successfully'',
                      ms_error = None\<rparr>, s\<lparr>payments := ps\<rparr>)
                | Inl error \<Rightarrow>
                    (\<lparr>ms_status = 500, ms_message = ''Server Error'', ms_error = Some error\<rparr>,
                     s))))"

section \<open>A concrete model and state\<close>

text \<open>
  An instance of the parameter on which the handlers can be evaluated: ids are 24
  hexadecimal digits, a new registration needs an \<^verbatim>\<open>email\<close>, an update validates a
  \<^verbatim>\<open>phone\<close> it is given, and full verification is the conjunction of the four
  tracked flags.
\<close>

definition is_hex :: "char \<Rightarrow> bool" where
  "is_hex c =
     (let n = (of_char c :: nat)
      in (48 \<le> n \<and> n \<le> 57) \<or> (65 \<le> n \<and> n \<le> 70) \<or> (97 \<le> n \<and> n \<le> 102))"

definition sample_isObjectId :: "string \<Rightarrow> bool" where
  "sample_isObjectId i = (length i = 24 \<and> list_all is_hex i)"

definition no_flags :: verification_status where
  "no_flags = \<lparr>aadharVerified = False, panVerified = False, signatureVerified = False,
     emailVerified = False, phoneVerified = False\<rparr>"

definition sample_save :: "collection \<Rightarrow> registration_data \<Rightarrow> js_error + (string \<times> registration)" where
  "sample_save c d =
     (case map_of (rd_body d) ''email'' of
        None \<Rightarrow> Inl (ValidationError [(''email'', ''Email is required'')])
      | Some e \<Rightarrow>
          Inr (''65f1a2b3c4d5e6f7012345aa'',
               \<lparr>reg_fields = rd_body d, aadharFile = rd_aadharFile d, panFile = None,
                signatureFile = rd_signatureFile d, registrationStatus = ''pending'',
                adminNotes = None, verificationStatus = no_flags, submissionDate = 0\<rparr>))"

definition sample_applyBody :: "registration \<Rightarrow> (string \<times> string) list \<Rightarrow> js_error + registration" where
  "sample_applyBody r body =
     (case map_of body ''phone'' of
        None \<Rightarrow> Inr (r\<lparr>reg_fields := body @ reg_fields r\<rparr>)
      | Some p \<Rightarrow>
          if digits_exactly 10 p then Inr (r\<lparr>reg_fields := body @ reg_fields r\<rparr>)
          else Inl (ValidationError [(''phone'', ''Phone number must be 10 digits'')]))"

definition sample_model :: TradingRegistration where
  "sample_model =
     \<lparr>isObjectId = sample_isObjectId, isFullyVerified = fullyVerified,
      fullName = (\<lambda>r. str_value (map_of (reg_fields r) ''firstName'')),
      save = sample_save, applyBody = sample_applyBody\<rparr>"

definition sample_id :: string where
  "sample_id = ''65f1a2b3c4d5e6f701234567''"

definition other_id :: string where
  "other_id = ''65f1a2b3c4d5e6f7012345ff''"

definition sample_aadhar :: file_data where
  "sample_aadhar = \<lparr>fd_filename = ''aadharFile-1-1.pdf'', fd_originalName = ''id.pdf'',
     fd_mimetype = ''application/pdf'', fd_size = 1000,
     fd_path = ''uploads/aadhar/aadharFile-1-1.pdf''\<rparr>"

definition sample_signature :: file_data where
  "sample_signature = \<lparr>fd_filename = ''signatureFile-1-2.png'', fd_originalName = ''sig.png'',
     fd_mimetype = ''image/png'', fd_size = 500,
     fd_path = ''uploads/signatures/signatureFile-1-2.png''\<rparr>"

definition sample_registration :: registration where
  "sample_registration =
     \<lparr>reg_fields = [(''email'', ''a@b.co'')], aadharFile = Some sample_aadhar, panFile = None,
      signatureFile = Some sample_signature, registrationStatus = ''pending'',
      adminNotes = None, verificationStatus = no_flags, submissionDate = 1700000000000\<rparr>"

definition sample_server :: server where
  "sample_server =
     \<lparr>db = [(sample_id, sample_registration)], userforms = [], payments = [],
      disk = {''uploads/aadhar/aadharFile-1-1.pdf'', ''uploads/signatures/signatureFile-1-2.png''}\<rparr>"

text \<open>A new upload, as the middleware stores it.\<close>

definition new_aadhar :: multer_file where
  "new_aadhar = \<lparr>fieldname = ''aadharFile'', originalname = ''new.pdf'',
     mimetype = ''application/pdf'', fsize = 2000, filename = ''aadharFile-2-7.pdf'',
     path = ''uploads/aadhar/aadharFile-2-7.pdf''\<rparr>"

definition new_signature :: multer_file where
  "new_signature = \<lparr>fieldname = ''signatureFile'', originalname = ''s.png'',
     mimetype = ''image/png'', fsize = 300, filename = ''signatureFile-2-8.png'',
     path = ''uploads/signatures/signatureFile-2-8.png''\<rparr>"

text \<open>The uploads of a request, and the state once the middleware has stored them.\<close>

definition sample_files :: req_files where
  "sample_files = Some [(''aadharFile'', [new_aadhar]), (''signatureFile'', [new_signature])]"

definition uploading_server :: server where
  "uploading_server =
     sample_server\<lparr>disk := disk sample_server \<union>
       {''uploads/aadhar/aadharFile-2-7.pdf'', ''uploads/signatures/signatureFile-2-8.png''}\<rparr>"

text \<open>A submission whose phone number the UserForm schema refuses.\<close>

definition sample_submission :: submit_body where
  "sample_submission =
     \<lparr>firstName = Some ''Asha'', lastName = Some ''Rao'', email = Some ''asha@example.com'',
      phone = Some ''12345'', dateOfBirth = DateMs 631152000000,
      address = Some ''12 Lake Road'', city = Some ''Pune'', state = Some ''MH'',
      pincode = Some ''411001'', aadharNumber = Some ''123412341234'',
      agreeTerms = Some ''true'', agreeMarketing = None\<rparr>"

text \<open>The same submission with a phone number of ten digits, as given to the schema.\<close>

definition valid_input :: user_form_input where
  "valid_input =
     (newUser (sample_submission\<lparr>phone := Some ''9876543210''\<rparr>) sample_files)
       \<lparr>in_agreeMarketing := None\<rparr>"

text \<open>
  An instance of \<^verbatim>\<open>parseFloat\<close> for evaluating the handler: leading white space is
  skipped and the longest prefix that is a decimal literal (sign, \<^verbatim>\<open>Infinity\<close> or
  digits with a fraction and an exponent) gives its exact value; with no such prefix
  the result is \<open>NaN\<close>. It agrees with JavaScript wherever that value is a double, as
  1200.5 is; JavaScript rounds every other value to a double.
\<close>

definition isDigit :: "nat \<Rightarrow> bool" where
  "isDigit c = (48 \<le> c \<and> c \<le> 57)"

definition digits_value :: "ustring \<Rightarrow> nat" where
  "digits_value ds = foldl (\<lambda>a c. 10 * a + (c - 48)) 0 ds"

definition pow10 :: "int \<Rightarrow> rat" where
  "pow10 k = (if 0 \<le> k then 10 ^ nat k else 1 / 10 ^ nat (- k))"

definition exponent_part :: "ustring \<Rightarrow> int" where
  "exponent_part r =
     (case r of
        [] \<Rightarrow> 0
      | c # r1 \<Rightarrow>
          if c = 101 \<or> c = 69 then
            (case r1 of
               [] \<Rightarrow> 0
             | sg # r2 \<Rightarrow>
                 if sg = 45 then - int (digits_value (takeWhile isDigit r2))
                 else if sg = 43 then int (digits_value (takeWhile isDigit r2))
                 else int (digits_value (takeWhile isDigit r1)))
          else 0)"

definition exact_parseFloat :: "ustring \<Rightarrow> jsnum" where
  "exact_parseFloat input =
     (let t = dropWhile isWhiteSpace input;
          neg = (case t of [] \<Rightarrow> False | c # r \<Rightarrow> c = 45);
          u = (case t of [] \<Rightarrow> [] | c # r \<Rightarrow> if c = 45 \<or> c = 43 then r else t)
      in if startsWith u (asc ''Infinity'') then (if neg then NegInf else PosInf)
         else
           (let ip = takeWhile isDigit u;
                r1 = dropWhile isDigit u;
                fp = (case r1 of [] \<Rightarrow> [] | c # r \<Rightarrow> if c = 46 then takeWhile isDigit r else []);
                r2 = (case r1 of [] \<Rightarrow> [] | c # r \<Rightarrow> if c = 46 then dropWhile isDigit r else r1)
            in if ip = [] \<and> fp = [] then NaN
               else Fin ((if neg then - 1 else 1) * of_nat (digits_value (ip @ fp))
                      * pow10 (exponent_part r2 - int (length fp)))))"

text \<open>A payment request whose amount is written with the rupee sign and a comma.\<close>

definition sample_payment :: payment_body where
  "sample_payment =
     \<lparr>userName = JStr (asc ''Asha Rao''), courseName = JStr (asc ''Options 101''),
      amount = JStr (8377 # asc ''1,200.50''), paymentStatus = JStr (asc ''Paid''),
      userPhone = JUndefined, userEmail = JStr (asc ''asha@example.com'')\<rparr>"

text \<open>A text file sent as the identity document, and a PDF of six mebibytes.\<close>

definition txt_upload :: multer_file where
  "txt_upload = \<lparr>fieldname = ''aadharFile'', originalname = ''notes.txt'',
     mimetype = ''text/plain'', fsize = 120, filename = ''aadharFile-3-1.txt'',
     path = ''uploads/aadhar/aadharFile-3-1.txt''\<rparr>"

definition big_upload :: multer_file where
  "big_upload = \<lparr>fieldname = ''aadharFile'', originalname = ''scan.pdf'',
     mimetype = ''application/pdf'', fsize = 6291456, filename = ''aadharFile-3-2.pdf'',
     path = ''uploads/aadhar/aadharFile-3-2.pdf''\<rparr>"

section \<open>Facts about the model queries\<close>

lemma err_kind_CastError_ObjectId: "err_kind (CastError_ObjectId v) = ''ObjectId''"
  by (simp add: CastError_ObjectId_def mk_error_def)

lemma findByIdAndUpdate_found:
  "isObjectId M i \<Longrightarrow> map_of c i = Some r \<Longrightarrow>
   findByIdAndUpdate M c i f = Inr (Some (f r), AList.update i (f r) c)"
  by (simp add: findByIdAndUpdate_def)

lemma map_of_update_other: "j \<noteq> i \<Longrightarrow> map_of (AList.update i v c) j = map_of c j"
  by (simp add: update_conv')

lemma map_of_update_same: "map_of (AList.update i v c) i = Some v"
  by (simp add: update_conv')

lemma get_by_id_found:
  "isObjectId M i \<Longrightarrow> map_of (db s) i = Some r \<Longrightarrow>
   get_by_id M s i =
     (\<lparr>status = 200, success = True, message = None, payload = Data_registration r\<rparr>, s)"
  by (simp add: get_by_id_def findById_def)

lemma sample_isObjectId_ids:
  "sample_isObjectId sample_id" "sample_isObjectId other_id" "\<not> sample_isObjectId ''abc''"
  by (simp_all add: sample_isObjectId_def sample_id_def other_id_def is_hex_def)

lemma sample_ids_differ: "sample_id \<noteq> other_id"
  by (simp add: sample_id_def other_id_def)

lemma sample_lookup:
  "map_of (db sample_server) sample_id = Some sample_registration"
  "map_of (db sample_server) other_id = None"
  by (simp_all add: sample_server_def sample_id_def other_id_def)

lemma sample_model_sel:
  "isObjectId sample_model = sample_isObjectId"
  "isFullyVerified sample_model = fullyVerified"
  "save sample_model = sample_save"
  "applyBody sample_model = sample_applyBody"
  by (simp_all add: sample_model_def)

section \<open>GET /:id: a missing record and a malformed id\<close>

text \<open>
  C6. GET /:id answers 404 with the message "Registration not found" when the id is a
  well-formed object id that no record has, and when the id is malformed (the cast
  error of \<open>findById\<close> has kind ObjectId): the two responses are the same one, neither
  is a 500, and the state is unchanged.
\<close>

theorem get_by_id_missing_or_malformed:
  "(isObjectId M i \<and> map_of (db s) i = None \<longrightarrow> get_by_id M s i = (not_found, s)) \<and>
   (\<not> isObjectId M j \<longrightarrow> get_by_id M s j = (not_found, s)) \<and>
   status not_found = 404 \<and> success not_found = False \<and>
   message not_found = Some ''Registration not found''"
  by (simp add: get_by_id_def findById_def err_kind_CastError_ObjectId not_found_def)

theorem get_by_id_missing_or_malformed_witness:
  "get_by_id sample_model sample_server other_id = (not_found, sample_server) \<and>
   get_by_id sample_model sample_server ''abc'' = (not_found, sample_server) \<and>
   status (fst (get_by_id sample_model sample_server ''abc'')) = 404"
  using get_by_id_missing_or_malformed
    [where M = sample_model and i = other_id and s = sample_server and j = "''abc''"]
  by (simp add: sample_model_sel sample_isObjectId_ids sample_lookup)

section \<open>PUT /:id/status\<close>

lemma registrationStatus_status_update: "registrationStatus (status_update st an r) = st"
  by (simp add: status_update_def split: option.splits)

lemma put_status_valid:
  assumes "st \<in> set validStatuses" "isObjectId M i" "map_of (db s) i = Some r"
  shows "put_status M s i st an =
    (\<lparr>status = 200, success = True, message = Some ''Registration status updated successfully'',
      payload = Data_status i st (adminNotes (status_update st an r))\<rparr>,
     s\<lparr>db := AList.update i (status_update st an r) (db s)\<rparr>)"
  using assms
  by (simp add: put_status_def findByIdAndUpdate_found registrationStatus_status_update)

text \<open>
  C3. PUT /:id/status with a status among pending, approved, rejected and
  under_review, on an existing record, answers 200, stores the record with
  \<open>registrationStatus\<close> set to that status (the notes set too when given), leaves every
  other record and the disk as they were, and a GET of the id afterwards returns the
  record with the new status. With any other status value the answer is 400 with the
  message "Invalid status value" and the state is unchanged.
\<close>

theorem put_status_sets_or_rejects:
  "(st \<in> set validStatuses \<and> isObjectId M i \<and> map_of (db s) i = Some r \<longrightarrow>
      status (fst (put_status M s i st an)) = 200 \<and>
      map_of (db (snd (put_status M s i st an))) i = Some (status_update st an r) \<and>
      registrationStatus (status_update st an r) = st \<and>
      (\<forall>j. j \<noteq> i \<longrightarrow> map_of (db (snd (put_status M s i st an))) j = map_of (db s) j) \<and>
      disk (snd (put_status M s i st an)) = disk s \<and>
      fst (get_by_id M (snd (put_status M s i st an)) i) =
        \<lparr>status = 200, success = True, message = None,
         payload = Data_registration (status_update st an r)\<rparr>) \<and>
   (st \<notin> set validStatuses \<longrightarrow>
      put_status M s i st an =
        (\<lparr>status = 400, success = False, message = Some ''Invalid status value'',
          payload = NoPayload\<rparr>, s)) \<and>
   set validStatuses = {''pending'', ''approved'', ''rejected'', ''under_review''}"
proof (intro conjI impI)
  assume a: "st \<in> set validStatuses \<and> isObjectId M i \<and> map_of (db s) i = Some r"
  then have eq: "put_status M s i st an =
    (\<lparr>status = 200, success = True, message = Some ''Registration status updated successfully'',
      payload = Data_status i st (adminNotes (status_update st an r))\<rparr>,
     s\<lparr>db := AList.update i (status_update st an r) (db s)\<rparr>)"
    by (simp add: put_status_valid)
  show "status (fst (put_status M s i st an)) = 200" by (simp add: eq)
  show "map_of (db (snd (put_status M s i st an))) i = Some (status_update st an r)"
    by (simp add: eq map_of_update_same)
  show "registrationStatus (status_update st an r) = st"
    by (rule registrationStatus_status_update)
  show "\<forall>j. j \<noteq> i \<longrightarrow> map_of (db (snd (put_status M s i st an))) j = map_of (db s) j"
    by (simp add: eq map_of_update_other)
  show "disk (snd (put_status M s i st an)) = disk s" by (simp add: eq)
  show "fst (get_by_id M (snd (put_status M s i st an)) i) =
        \<lparr>status = 200, success = True, message = None,
         payload = Data_registration (status_update st an r)\<rparr>"
    using a by (simp add: eq get_by_id_found map_of_update_same)
next
  assume "st \<notin> set validStatuses"
  then show "put_status M s i st an =
        (\<lparr>status = 400, success = False, message = Some ''Invalid status value'',
          payload = NoPayload\<rparr>, s)"
    by (simp add: put_status_def)
next
  show "set validStatuses = {''pending'', ''approved'', ''rejected'', ''under_review''}"
    by (simp add: validStatuses_def)
qed

theorem put_status_sets_or_rejects_witness:
  "map_of (db (snd (put_status sample_model sample_server sample_id ''approved'' None))) sample_id =
     Some (sample_registration\<lparr>registrationStatus := ''approved''\<rparr>) \<and>
   fst (get_by_id sample_model
          (snd (put_status sample_model sample_server sample_id ''approved'' None)) sample_id) =
     \<lparr>status = 200, success = True, message = None,
      payload = Data_registration (sample_registration\<lparr>registrationStatus := ''approved''\<rparr>)\<rparr> \<and>
   put_status sample_model sample_server sample_id ''archived'' None =
     (\<lparr>status = 400, success = False, message = Some ''Invalid status value'',
       payload = NoPayload\<rparr>, sample_server)"
  using put_status_sets_or_rejects
    [where M = sample_model and s = sample_server and i = sample_id and st = "''approved''"
       and r = sample_registration and an = None]
    put_status_sets_or_rejects
    [where M = sample_model and s = sample_server and i = sample_id and st = "''archived''"
       and r = sample_registration and an = None]
  by (simp add: sample_model_sel sample_isObjectId_ids sample_lookup validStatuses_def
      status_update_def)

section \<open>PUT /:id/verify\<close>

lemma get_flag_set_flag_same: "t \<in> set validTypes \<Longrightarrow> get_flag t (set_flag t b v) = Some b"
  by (auto simp: validTypes_def get_flag_def set_flag_def)

lemma get_flag_set_flag_other: "t' \<noteq> t \<Longrightarrow> get_flag t' (set_flag t b v) = get_flag t' v"
  by (auto simp: get_flag_def set_flag_def)

lemma put_verify_valid:
  assumes "t \<in> set validTypes" "isObjectId M i" "map_of (db s) i = Some r"
  shows "put_verify M s i t b =
    (\<lparr>status = 200, success = True, message = Some ''Verification status updated successfully'',
      payload = Data_verify i (verificationStatus (verify_update t b r))
        (isFullyVerified M (verify_update t b r))\<rparr>,
     s\<lparr>db := AList.update i (verify_update t b r) (db s)\<rparr>)"
  using assms by (simp add: put_verify_def findByIdAndUpdate_found)

text \<open>
  C2. PUT /:id/verify with a verification type among aadharVerified, panVerified,
  signatureVerified, emailVerified and phoneVerified, on an existing record, stores
  the record with that flag equal to the boolean given and with every other
  verification flag, and every other field, as stored before; other records and the
  disk are untouched; the answer is 200 and carries the new flags and
  \<open>isFullyVerified\<close> computed on the updated record. With any other type the answer is
  400 with the message "Invalid verification type" and the state is unchanged.
\<close>

theorem put_verify_sets_one_flag:
  "(t \<in> set validTypes \<and> isObjectId M i \<and> map_of (db s) i = Some r \<longrightarrow>
      fst (put_verify M s i t b) =
        \<lparr>status = 200, success = True,
         message = Some ''Verification status updated successfully'',
         payload = Data_verify i (verificationStatus (verify_update t b r))
           (isFullyVerified M (verify_update t b r))\<rparr> \<and>
      map_of (db (snd (put_verify M s i t b))) i = Some (verify_update t b r) \<and>
      get_flag t (verificationStatus (verify_update t b r)) = Some b \<and>
      (\<forall>t'. t' \<noteq> t \<longrightarrow>
         get_flag t' (verificationStatus (verify_update t b r)) = get_flag t' (verificationStatus r)) \<and>
      verify_update t b r = r\<lparr>verificationStatus := verificationStatus (verify_update t b r)\<rparr> \<and>
      (\<forall>j. j \<noteq> i \<longrightarrow> map_of (db (snd (put_verify M s i t b))) j = map_of (db s) j) \<and>
      disk (snd (put_verify M s i t b)) = disk s) \<and>
   (t \<notin> set validTypes \<longrightarrow>
      put_verify M s i t b =
        (\<lparr>status = 400, success = False, message = Some ''Invalid verification type'',
          payload = NoPayload\<rparr>, s)) \<and>
   set validTypes =
     {''aadharVerified'', ''panVerified'', ''signatureVerified'', ''emailVerified'', ''phoneVerified''}"
proof (intro conjI impI)
  assume a: "t \<in> set validTypes \<and> isObjectId M i \<and> map_of (db s) i = Some r"
  then have eq: "put_verify M s i t b =
    (\<lparr>status = 200, success = True, message = Some ''Verification status updated successfully'',
      payload = Data_verify i (verificationStatus (verify_update t b r))
        (isFullyVerified M (verify_update t b r))\<rparr>,
     s\<lparr>db := AList.update i (verify_update t b r) (db s)\<rparr>)"
    by (simp add: put_verify_valid)
  show "fst (put_verify M s i t b) =
        \<lparr>status = 200, success = True,
         message = Some ''Verification status updated successfully'',
         payload = Data_verify i (verificationStatus (verify_update t b r))
           (isFullyVerified M (verify_update t b r))\<rparr>"
    by (simp add: eq)
  show "map_of (db (snd (put_verify M s i t b))) i = Some (verify_update t b r)"
    by (simp add: eq map_of_update_same)
  show "get_flag t (verificationStatus (verify_update t b r)) = Some b"
    using a by (simp add: verify_update_def get_flag_set_flag_same)
  show "\<forall>t'. t' \<noteq> t \<longrightarrow>
         get_flag t' (verificationStatus (verify_update t b r)) = get_flag t' (verificationStatus r)"
    by (simp add: verify_update_def get_flag_set_flag_other)
  show "verify_update t b r = r\<lparr>verificationStatus := verificationStatus (verify_update t b r)\<rparr>"
    by (simp add: verify_update_def)
  show "\<forall>j. j \<noteq> i \<longrightarrow> map_of (db (snd (put_verify M s i t b))) j = map_of (db s) j"
    by (simp add: eq map_of_update_other)
  show "disk (snd (put_verify M s i t b)) = disk s" by (simp add: eq)
next
  assume "t \<notin> set validTypes"
  then show "put_verify M s i t b =
        (\<lparr>status = 400, success = False, message = Some ''Invalid verification type'',
          payload = NoPayload\<rparr>, s)"
    by (simp add: put_verify_def)
next
  show "set validTypes =
     {''aadharVerified'', ''panVerified'', ''signatureVerified'', ''emailVerified'', ''phoneVerified''}"
    by (simp add: validTypes_def)
qed

theorem put_verify_sets_one_flag_witness:
  "fst (put_verify sample_model sample_server sample_id ''emailVerified'' True) =
     \<lparr>status = 200, success = True,
      message = Some ''Verification status updated successfully'',
      payload = Data_verify sample_id (no_flags\<lparr>emailVerified := True\<rparr>) False\<rparr> \<and>
   map_of (db (snd (put_verify sample_model sample_server sample_id ''emailVerified'' True)))
       sample_id =
     Some (sample_registration\<lparr>verificationStatus := no_flags\<lparr>emailVerified := True\<rparr>\<rparr>) \<and>
   put_verify sample_model sample_server sample_id ''kycVerified'' True =
     (\<lparr>status = 400, success = False, message = Some ''Invalid verification type'',
       payload = NoPayload\<rparr>, sample_server)"
  using put_verify_sets_one_flag
    [where M = sample_model and s = sample_server and i = sample_id and t = "''emailVerified''"
       and r = sample_registration and b = True]
    put_verify_sets_one_flag
    [where M = sample_model and s = sample_server and i = sample_id and t = "''kycVerified''"
       and r = sample_registration and b = True]
  by (simp add: sample_model_sel sample_isObjectId_ids sample_lookup validTypes_def
      verify_update_def set_flag_def sample_registration_def fullyVerified_def no_flags_def)

section \<open>Failed creates and the uploaded files\<close>

lemma cleanup_uploads_eq: "cleanup_uploads d files = d - path ` set (uploaded files)"
proof -
  have "foldl (\<lambda>d' file. unlink_if_exists d' (path file)) d fs = d - path ` set fs" for fs
    by (induction fs arbitrary: d) (auto simp: unlink_if_exists_def existsSync_def unlinkSync_def)
  then show ?thesis by (simp add: cleanup_uploads_def)
qed

lemma post_create_failed:
  "save M (db s) (registrationData body files) = Inl error \<Longrightarrow>
   post_create M s body files =
     (failure_response ''Registration failed'' error, s\<lparr>disk := disk s - path ` set (uploaded files)\<rparr>)"
  by (simp add: post_create_def cleanup_uploads_eq)

lemma fileFilter_Inr: "fileFilter f = Inr b \<Longrightarrow> b"
  by (auto simp: fileFilter_def Let_def split: if_splits)

lemma set_update_existing:
  "map_of acc k = Some a \<Longrightarrow>
   (\<Union>x\<in>set (AList.update k (a @ [f]) acc). set (snd x)) = insert f (\<Union>x\<in>set acc. set (snd x))"
  by (induction acc) (auto split: if_splits)

lemma set_append_file:
  "(\<Union>x\<in>set (append_file acc f). set (snd x)) = insert f (\<Union>x\<in>set acc. set (snd x))"
proof (cases "map_of acc (fieldname f)")
  case None
  then show ?thesis by (simp add: append_file_def)
next
  case (Some a)
  then show ?thesis by (simp add: append_file_def set_update_existing)
qed

lemma multer_loop_ok:
  "multer_loop left acc d ps = Inr (acc', d') \<Longrightarrow>
   (\<Union>x\<in>set acc'. set (snd x)) = (\<Union>x\<in>set acc. set (snd x)) \<union> set ps \<and> d' = d \<union> path ` set ps"
proof (induction ps arbitrary: left acc d)
  case Nil
  then show ?case by simp
next
  case (Cons f fs)
  from Cons.prems obtain n where
    rec: "multer_loop (AList.update (fieldname f) n left) (append_file acc f) (insert (path f) d) fs
            = Inr (acc', d')"
    by (auto split: option.splits nat.splits sum.splits bool.splits if_splits dest: fileFilter_Inr)
  from Cons.IH [OF rec] show ?case by (simp add: set_append_file)
qed

lemma uploadFields_ok:
  assumes "uploadFields d (Some ps) = Inr (files, d')"
  shows "set (uploaded files) = set ps \<and> d' = d \<union> path ` set ps"
proof -
  from assms obtain acc where m: "multer_loop uploadFields_spec [] d ps = Inr (acc, d')"
    and f: "files = Some acc"
    by (auto simp: uploadFields_def split: sum.splits)
  from multer_loop_ok [OF m] f show ?thesis by (simp add: uploaded_def)
qed

lemma route_post_failed:
  assumes "uploadFields (disk s) (Some parts) = Inr (files, d)"
    and "save M (db s) (registrationData body files) = Inl error"
  shows "route_post M s body (Some parts) =
    (Handled (failure_response ''Registration failed'' error), s\<lparr>disk := disk s - path ` set parts\<rparr>)"
proof -
  from uploadFields_ok [OF assms(1)]
  have u: "set (uploaded files) = set parts" and d: "d = disk s \<union> path ` set parts" by simp_all
  have "post_create M (s\<lparr>disk := d\<rparr>) body files =
     (failure_response ''Registration failed'' error,
      s\<lparr>disk := d - path ` set (uploaded files)\<rparr>)"
    using assms(2) by (simp add: post_create_failed)
  moreover have "d - path ` set (uploaded files) = disk s - path ` set parts"
    using u d by auto
  ultimately show ?thesis using assms(1) by (simp add: route_post_def)
qed


lemma failure_response_400:
  "handleRegistrationErrors e = Some errs \<Longrightarrow>
   failure_response m e = Some \<lparr>status = 400, success = False, message = Some m, payload = Errors errs\<rparr>"
  by (simp add: failure_response_def)

lemma handleRegistrationErrors_defined:
  "\<not> (err_name e = ''MongoServerError'' \<and> err_code e = Some 11000 \<and> err_keyPattern e = []) \<Longrightarrow>
   handleRegistrationErrors e \<noteq> None"
  by (auto simp: handleRegistrationErrors_def split: list.splits)

lemma submitForm_failed:
  assumes "truthy_str (firstName body)" "truthy_str (lastName body)" "truthy_str (email body)"
    "truthy_str (file_path files ''aadharFile'')" "truthy_str (file_path files ''signatureFile'')"
    "UserForm_save now (userforms s) (newUser body files) = Inl error"
  shows "submitForm now s body files =
     (\<lparr>ms_status = 500, ms_message = ''Something went wrong. Please try again.'', ms_error = None\<rparr>, s)"
  using assms by (simp add: submitForm_def)

text \<open>
  C1 (as amended). When \<open>save\<close> fails in the handler of the trading registration
  POST /, every file of \<open>req.files\<close> is unlinked: the disk afterwards is the disk before
  without their paths, so none of the files the middleware stored for the request
  remains; the collection is unchanged; and the answer is 400 with the message
  "Registration failed" and the field-keyed map of \<open>handleRegistrationErrors\<close>, which
  is defined for every error but a duplicate-key error that carries no key pattern.
  The same holds of the route as a whole, from the state before the upload. When
  \<open>save\<close> fails in \<open>submitForm\<close> (generic registration POST /submit), the answer is 500
  with the message "Something went wrong. Please try again." and no error map, and
  the collection is unchanged.
\<close>

theorem failed_create_cleans_up:
  "(save M (db s) (registrationData body files) = Inl error \<longrightarrow>
      disk (snd (post_create M s body files)) = disk s - path ` set (uploaded files) \<and>
      (\<forall>f \<in> set (uploaded files). path f \<notin> disk (snd (post_create M s body files))) \<and>
      db (snd (post_create M s body files)) = db s \<and>
      fst (post_create M s body files) = failure_response ''Registration failed'' error \<and>
      (\<forall>errs. handleRegistrationErrors error = Some errs \<longrightarrow>
         fst (post_create M s body files) =
           Some \<lparr>status = 400, success = False, message = Some ''Registration failed'',
                 payload = Errors errs\<rparr>) \<and>
      (\<not> (err_name error = ''MongoServerError'' \<and> err_code error = Some 11000 \<and>
          err_keyPattern error = []) \<longrightarrow> handleRegistrationErrors error \<noteq> None)) \<and>
   (uploadFields (disk s) (Some parts) = Inr (files, d) \<and>
    save M (db s) (registrationData body files) = Inl error \<longrightarrow>
      route_post M s body (Some parts) =
        (Handled (failure_response ''Registration failed'' error),
         s\<lparr>disk := disk s - path ` set parts\<rparr>) \<and>
      (\<forall>f \<in> set parts. path f \<notin> disk (snd (route_post M s body (Some parts))))) \<and>
   (truthy_str (firstName sub) \<and> truthy_str (lastName sub) \<and> truthy_str (email sub) \<and>
    truthy_str (file_path files ''aadharFile'') \<and> truthy_str (file_path files ''signatureFile'') \<and>
    UserForm_save now (userforms s) (newUser sub files) = Inl error' \<longrightarrow>
      fst (submitForm now s sub files) =
        \<lparr>ms_status = 500, ms_message = ''Something went wrong. Please try again.'',
         ms_error = None\<rparr> \<and>
      userforms (snd (submitForm now s sub files)) = userforms s)"
proof (intro conjI impI)
  assume a: "save M (db s) (registrationData body files) = Inl error"
  note eq = post_create_failed [OF a]
  show "disk (snd (post_create M s body files)) = disk s - path ` set (uploaded files)"
    by (simp add: eq)
  show "\<forall>f \<in> set (uploaded files). path f \<notin> disk (snd (post_create M s body files))"
    by (simp add: eq)
  show "db (snd (post_create M s body files)) = db s" by (simp add: eq)
  show "fst (post_create M s body files) = failure_response ''Registration failed'' error"
    by (simp add: eq)
  show "\<forall>errs. handleRegistrationErrors error = Some errs \<longrightarrow>
         fst (post_create M s body files) =
           Some \<lparr>status = 400, success = False, message = Some ''Registration failed'',
                 payload = Errors errs\<rparr>"
    by (simp add: eq failure_response_400)
next
  assume "\<not> (err_name error = ''MongoServerError'' \<and> err_code error = Some 11000 \<and>
          err_keyPattern error = [])"
  then show "handleRegistrationErrors error \<noteq> None"
    by (rule handleRegistrationErrors_defined)
next
  assume a: "uploadFields (disk s) (Some parts) = Inr (files, d) \<and>
    save M (db s) (registrationData body files) = Inl error"
  then have eq: "route_post M s body (Some parts) =
        (Handled (failure_response ''Registration failed'' error),
         s\<lparr>disk := disk s - path ` set parts\<rparr>)"
    by (simp add: route_post_failed)
  show "route_post M s body (Some parts) =
        (Handled (failure_response ''Registration failed'' error),
         s\<lparr>disk := disk s - path ` set parts\<rparr>)"
    by (rule eq)
  show "\<forall>f \<in> set parts. path f \<notin> disk (snd (route_post M s body (Some parts)))"
    by (simp add: eq)
next
  assume a: "truthy_str (firstName sub) \<and> truthy_str (lastName sub) \<and> truthy_str (email sub) \<and>
    truthy_str (file_path files ''aadharFile'') \<and> truthy_str (file_path files ''signatureFile'') \<and>
    UserForm_save now (userforms s) (newUser sub files) = Inl error'"
  then have eq: "submitForm now s sub files =
     (\<lparr>ms_status = 500, ms_message = ''Something went wrong. Please try again.'', ms_error = None\<rparr>, s)"
    by (simp add: submitForm_failed)
  show "fst (submitForm now s sub files) =
        \<lparr>ms_status = 500, ms_message = ''Something went wrong. Please try again.'',
         ms_error = None\<rparr>" by (simp add: eq)
  show "userforms (snd (submitForm now s sub files)) = userforms s" by (simp add: eq)
qed

lemma sample_save_fails:
  "save sample_model (db uploading_server) (registrationData [] sample_files) =
     Inl (ValidationError [(''email'', ''Email is required'')])"
  by (simp add: sample_model_def sample_save_def registrationData_def)

lemma sample_uploads: "uploaded sample_files = [new_aadhar, new_signature]"
  by (simp add: uploaded_def sample_files_def)

lemma sample_paths:
  "path new_aadhar = ''uploads/aadhar/aadharFile-2-7.pdf''"
  "path new_signature = ''uploads/signatures/signatureFile-2-8.png''"
  by (simp_all add: new_aadhar_def new_signature_def)

lemma sample_file_paths:
  "file_path sample_files ''aadharFile'' = Some ''uploads/aadhar/aadharFile-2-7.pdf''"
  "file_path sample_files ''signatureFile'' = Some ''uploads/signatures/signatureFile-2-8.png''"
  by (simp_all add: file_path_def files_field_def sample_files_def first_file_def sample_paths)

lemma validate_sample_submission:
  "validate 1700000000000 (newUser sample_submission sample_files) =
     [(''phone'', ''Phone number must be 10 digits'')]"
  by (simp add: validate_def newUser_def sample_submission_def sample_file_paths keyed_def
      check_firstName_def check_lastName_def check_email_def check_phone_def
      check_dateOfBirth_def check_address_def check_city_def check_state_def check_pincode_def
      check_aadharNumber_def check_aadharFile_def check_signatureFile_def check_agreeTerms_def
      required_string_def trimmed_def trim_def js_space_def toLowerCase_def toLowerCase_char_def
      digits_exactly_def is_digit_def dot_def re_dot_any_def re_at_mid_def)

lemma sample_submission_save_fails:
  "UserForm_save 1700000000000 (userforms uploading_server) (newUser sample_submission sample_files) =
     Inl (ValidationError [(''phone'', ''Phone number must be 10 digits'')])"
  by (simp add: UserForm_save_def validate_sample_submission)

text \<open>
  C1 as stated fails for the generic registration: a submission with both files
  stored and a phone number of five digits is refused by the schema, \<open>submitForm\<close>
  answers 500 (not 400), and both uploaded files are still on disk.
\<close>

theorem failed_submit_leaves_files:
  "UserForm_save 1700000000000 (userforms uploading_server) (newUser sample_submission sample_files) =
     Inl (ValidationError [(''phone'', ''Phone number must be 10 digits'')]) \<and>
   ms_status (fst (submitForm 1700000000000 uploading_server sample_submission sample_files)) = 500 \<and>
   path new_aadhar \<in> disk (snd (submitForm 1700000000000 uploading_server sample_submission sample_files)) \<and>
   path new_signature \<in> disk (snd (submitForm 1700000000000 uploading_server sample_submission sample_files))"
proof -
  have t: "truthy_str (firstName sample_submission)" "truthy_str (lastName sample_submission)"
    "truthy_str (email sample_submission)" "truthy_str (file_path sample_files ''aadharFile'')"
    "truthy_str (file_path sample_files ''signatureFile'')"
    by (simp_all add: truthy_str_def sample_submission_def sample_file_paths)
  have eq: "submitForm 1700000000000 uploading_server sample_submission sample_files =
     (\<lparr>ms_status = 500, ms_message = ''Something went wrong. Please try again.'',
       ms_error = None\<rparr>, uploading_server)"
    using t sample_submission_save_fails by (simp add: submitForm_def)
  have d: "path new_aadhar \<in> disk uploading_server" "path new_signature \<in> disk uploading_server"
    by (simp_all add: uploading_server_def sample_paths)
  from sample_submission_save_fails d show ?thesis
    unfolding eq by simp
qed


lemma sample_uploadFields:
  "uploadFields (disk sample_server) (Some [new_aadhar, new_signature]) =
     Inr (sample_files, disk uploading_server)"
  by (simp add: uploadFields_def uploadFields_spec_def fileFilter_def allowedTypes_def
      new_aadhar_def new_signature_def path_extname_def toLowerCase_def toLowerCase_char_def
      regex_test_def fileSize_def append_file_def sample_files_def uploading_server_def
      insert_commute)

lemma handle_sample_error:
  "handleRegistrationErrors (ValidationError [(''email'', ''Email is required'')]) =
     Some [(''email'', ''Email is required'')]"
  by (simp add: handleRegistrationErrors_def ValidationError_def mk_error_def)

theorem failed_create_cleans_up_witness:
  "disk (snd (post_create sample_model uploading_server [] sample_files)) = disk sample_server \<and>
   fst (post_create sample_model uploading_server [] sample_files) =
     Some \<lparr>status = 400, success = False, message = Some ''Registration failed'',
           payload = Errors [(''email'', ''Email is required'')]\<rparr> \<and>
   snd (route_post sample_model sample_server [] (Some [new_aadhar, new_signature])) = sample_server \<and>
   fst (submitForm 1700000000000 uploading_server sample_submission sample_files) =
     \<lparr>ms_status = 500, ms_message = ''Something went wrong. Please try again.'',
      ms_error = None\<rparr>"
proof -
  have sv: "save sample_model (db sample_server) (registrationData [] sample_files) =
     Inl (ValidationError [(''email'', ''Email is required'')])"
    by (simp add: sample_model_def sample_save_def registrationData_def)
  have db: "db uploading_server = db sample_server" "userforms uploading_server = userforms sample_server"
    by (simp_all add: uploading_server_def)
  have t: "truthy_str (firstName sample_submission)" "truthy_str (lastName sample_submission)"
    "truthy_str (email sample_submission)" "truthy_str (file_path sample_files ''aadharFile'')"
    "truthy_str (file_path sample_files ''signatureFile'')"
    by (simp_all add: truthy_str_def sample_submission_def sample_file_paths)
  have d1: "disk uploading_server - path ` set (uploaded sample_files) = disk sample_server"
    by (simp add: uploading_server_def sample_server_def sample_uploads sample_paths)
  have d2: "sample_server\<lparr>disk := disk sample_server - path ` set [new_aadhar, new_signature]\<rparr>
      = sample_server"
    by (simp add: sample_server_def sample_paths)
  have fr: "failure_response ''Registration failed''
       (ValidationError [(''email'', ''Email is required'')]) =
     Some \<lparr>status = 400, success = False, message = Some ''Registration failed'',
           payload = Errors [(''email'', ''Email is required'')]\<rparr>"
    by (simp add: failure_response_def handle_sample_error)
  have A: "disk (snd (post_create sample_model uploading_server [] sample_files)) = disk sample_server \<and>
     fst (post_create sample_model uploading_server [] sample_files) =
       Some \<lparr>status = 400, success = False, message = Some ''Registration failed'',
             payload = Errors [(''email'', ''Email is required'')]\<rparr> \<and>
     fst (submitForm 1700000000000 uploading_server sample_submission sample_files) =
       \<lparr>ms_status = 500, ms_message = ''Something went wrong. Please try again.'',
        ms_error = None\<rparr>"
    using failed_create_cleans_up
      [where M = sample_model and s = uploading_server and body = "[]" and files = sample_files
         and error = "ValidationError [(''email'', ''Email is required'')]"
         and sub = sample_submission and now = 1700000000000
         and error' = "ValidationError [(''phone'', ''Phone number must be 10 digits'')]"
         and parts = "[]" and d = "{}"]
      sv t sample_submission_save_fails
    by (simp add: db d1 fr)
  have B: "snd (route_post sample_model sample_server [] (Some [new_aadhar, new_signature])) =
      sample_server"
    using failed_create_cleans_up
      [where M = sample_model and s = sample_server and body = "[]" and files = sample_files
         and error = "ValidationError [(''email'', ''Email is required'')]"
         and parts = "[new_aadhar, new_signature]" and d = "disk uploading_server"
         and sub = sample_submission and now = 1700000000000
         and error' = "ValidationError [(''phone'', ''Phone number must be 10 digits'')]"]
      sv sample_uploadFields d2
    by simp
  from A B show ?thesis by simp
qed

section \<open>DELETE /:id, and when files leave the disk\<close>
























section \<open>GET /stats\<close>







section \<open>The email pattern\<close>

text \<open>
  The matcher \<open>email_test\<close> holds exactly of the strings that contain one or more
  characters, an at sign, one or more characters, a dot and one or more characters,
  none of these characters a line terminator.
\<close>

lemma re_dot_any_iff: "re_dot_any s \<longleftrightarrow> (\<exists>c r. s = CHR ''.'' # c # r \<and> dot c)"
  by (auto simp: re_dot_any_def split: list.splits)

lemma re_mid_iff:
  "re_mid s \<longleftrightarrow> (\<exists>b c r. s = b @ CHR ''.'' # c # r \<and> b \<noteq> [] \<and> list_all dot b \<and> dot c)"
proof (induction s)
  case Nil
  then show ?case by simp
next
  case (Cons x xs)
  show ?case
  proof
    assume "re_mid (x # xs)"
    then have x: "dot x" and d: "re_dot_any xs \<or> re_mid xs" by simp_all
    from d show "\<exists>b c r. x # xs = b @ CHR ''.'' # c # r \<and> b \<noteq> [] \<and> list_all dot b \<and> dot c"
    proof
      assume "re_dot_any xs"
      then obtain c r where "xs = CHR ''.'' # c # r" "dot c" by (auto simp: re_dot_any_iff)
      with x have "x # xs = [x] @ CHR ''.'' # c # r \<and> [x] \<noteq> [] \<and> list_all dot [x] \<and> dot c" by simp
      then show ?thesis by blast
    next
      assume "re_mid xs"
      with Cons.IH obtain b c r where "xs = b @ CHR ''.'' # c # r" "list_all dot b" "dot c" by blast
      with x have "x # xs = (x # b) @ CHR ''.'' # c # r \<and> x # b \<noteq> [] \<and> list_all dot (x # b) \<and> dot c"
        by simp
      then show ?thesis by blast
    qed
  next
    assume "\<exists>b c r. x # xs = b @ CHR ''.'' # c # r \<and> b \<noteq> [] \<and> list_all dot b \<and> dot c"
    then obtain b c r where e: "x # xs = b @ CHR ''.'' # c # r" and b: "b \<noteq> []" "list_all dot b"
      and c: "dot c" by blast
    from b obtain b' where b': "b = x # b'" using e by (cases b) auto
    with b have x: "dot x" and lb: "list_all dot b'" by simp_all
    from e b' have xs: "xs = b' @ CHR ''.'' # c # r" by simp
    show "re_mid (x # xs)"
    proof (cases "b' = []")
      case True
      with xs c have "re_dot_any xs" by (simp add: re_dot_any_iff)
      with x show ?thesis by simp
    next
      case False
      with xs lb c Cons.IH have "re_mid xs" by blast
      with x show ?thesis by simp
    qed
  qed
qed

lemma re_from_iff:
  "re_from s \<longleftrightarrow>
     (\<exists>a b c r. s = a @ CHR ''@'' # b @ CHR ''.'' # c # r \<and> a \<noteq> [] \<and> list_all dot a \<and>
        b \<noteq> [] \<and> list_all dot b \<and> dot c)"
proof (induction s)
  case Nil
  then show ?case by simp
next
  case (Cons x xs)
  show ?case
  proof
    assume "re_from (x # xs)"
    then have x: "dot x" and d: "re_at_mid xs \<or> re_from xs" by simp_all
    from d show "\<exists>a b c r. x # xs = a @ CHR ''@'' # b @ CHR ''.'' # c # r \<and> a \<noteq> [] \<and> list_all dot a \<and>
        b \<noteq> [] \<and> list_all dot b \<and> dot c"
    proof
      assume "re_at_mid xs"
      then obtain t where "xs = CHR ''@'' # t" "re_mid t"
        by (auto simp: re_at_mid_def split: list.splits)
      then obtain b c r where "xs = CHR ''@'' # b @ CHR ''.'' # c # r" "b \<noteq> []" "list_all dot b" "dot c"
        by (auto simp: re_mid_iff)
      with x have "x # xs = [x] @ CHR ''@'' # b @ CHR ''.'' # c # r \<and> [x] \<noteq> [] \<and> list_all dot [x] \<and>
        b \<noteq> [] \<and> list_all dot b \<and> dot c" by simp
      then show ?thesis by blast
    next
      assume "re_from xs"
      with Cons.IH obtain a b c r where "xs = a @ CHR ''@'' # b @ CHR ''.'' # c # r" "list_all dot a"
        "b \<noteq> []" "list_all dot b" "dot c" by blast
      with x have "x # xs = (x # a) @ CHR ''@'' # b @ CHR ''.'' # c # r \<and> x # a \<noteq> [] \<and>
        list_all dot (x # a) \<and> b \<noteq> [] \<and> list_all dot b \<and> dot c" by simp
      then show ?thesis by blast
    qed
  next
    assume "\<exists>a b c r. x # xs = a @ CHR ''@'' # b @ CHR ''.'' # c # r \<and> a \<noteq> [] \<and> list_all dot a \<and>
        b \<noteq> [] \<and> list_all dot b \<and> dot c"
    then obtain a b c r where e: "x # xs = a @ CHR ''@'' # b @ CHR ''.'' # c # r"
      and a: "a \<noteq> []" "list_all dot a" and b: "b \<noteq> []" "list_all dot b" and c: "dot c" by blast
    from a obtain a' where a': "a = x # a'" using e by (cases a) auto
    with a have x: "dot x" and la: "list_all dot a'" by simp_all
    from e a' have xs: "xs = a' @ CHR ''@'' # b @ CHR ''.'' # c # r" by simp
    show "re_from (x # xs)"
    proof (cases "a' = []")
      case True
      have "re_mid (b @ CHR ''.'' # c # r)" using b c by (auto simp: re_mid_iff)
      with True xs have "re_at_mid xs" by (simp add: re_at_mid_def)
      with x show ?thesis by simp
    next
      case False
      with xs la b c Cons.IH have "re_from xs" by blast
      with x show ?thesis by simp
    qed
  qed
qed

lemma email_test_iff_suffix: "email_test s \<longleftrightarrow> (\<exists>p t. s = p @ t \<and> re_from t)"
proof (induction s)
  case Nil
  then show ?case by simp
next
  case (Cons x xs)
  show ?case
  proof
    assume "email_test (x # xs)"
    then have "re_from (x # xs) \<or> email_test xs" by simp
    then show "\<exists>p t. x # xs = p @ t \<and> re_from t"
    proof
      assume "re_from (x # xs)"
      then have "x # xs = [] @ (x # xs) \<and> re_from (x # xs)" by simp
      then show ?thesis by blast
    next
      assume "email_test xs"
      with Cons.IH obtain p t where "xs = p @ t" "re_from t" by blast
      then have "x # xs = (x # p) @ t \<and> re_from t" by simp
      then show ?thesis by blast
    qed
  next
    assume "\<exists>p t. x # xs = p @ t \<and> re_from t"
    then obtain p t where e: "x # xs = p @ t" and t: "re_from t" by blast
    show "email_test (x # xs)"
    proof (cases p)
      case Nil
      with e have "t = x # xs" by simp
      with t have "re_from (x # xs)" by simp
      then show ?thesis by simp
    next
      case (Cons y p')
      with e have "xs = p' @ t" by simp
      with t Cons.IH have "email_test xs" by blast
      then show ?thesis by simp
    qed
  qed
qed

lemma email_test_iff:
  "email_test s \<longleftrightarrow>
     (\<exists>p a b c q. s = p @ a @ ''@'' @ b @ ''.'' @ c @ q \<and>
        a \<noteq> [] \<and> list_all dot a \<and> b \<noteq> [] \<and> list_all dot b \<and> c \<noteq> [] \<and> list_all dot c)"
proof
  assume "email_test s"
  then obtain p a b c r where "s = p @ a @ CHR ''@'' # b @ CHR ''.'' # c # r" "a \<noteq> []"
    "list_all dot a" "b \<noteq> []" "list_all dot b" "dot c"
    by (auto simp: email_test_iff_suffix re_from_iff)
  then have "s = p @ a @ ''@'' @ b @ ''.'' @ [c] @ r \<and>
        a \<noteq> [] \<and> list_all dot a \<and> b \<noteq> [] \<and> list_all dot b \<and> [c] \<noteq> [] \<and> list_all dot [c]"
    by simp
  then show "\<exists>p a b c q. s = p @ a @ ''@'' @ b @ ''.'' @ c @ q \<and>
        a \<noteq> [] \<and> list_all dot a \<and> b \<noteq> [] \<and> list_all dot b \<and> c \<noteq> [] \<and> list_all dot c"
    by blast
next
  assume "\<exists>p a b c q. s = p @ a @ ''@'' @ b @ ''.'' @ c @ q \<and>
        a \<noteq> [] \<and> list_all dot a \<and> b \<noteq> [] \<and> list_all dot b \<and> c \<noteq> [] \<and> list_all dot c"
  then obtain p a b c q where s: "s = p @ a @ ''@'' @ b @ ''.'' @ c @ q" and
    ab: "a \<noteq> []" "list_all dot a" "b \<noteq> []" "list_all dot b" and c: "c \<noteq> []" "list_all dot c"
    by blast
  from c obtain c0 cs where c0: "c = c0 # cs" "dot c0" by (cases c) auto
  with s have "s = p @ (a @ CHR ''@'' # b @ CHR ''.'' # c0 # (cs @ q))" by simp
  moreover have "re_from (a @ CHR ''@'' # b @ CHR ''.'' # c0 # (cs @ q))"
    using ab c0 by (auto simp: re_from_iff)
  ultimately show "email_test s" by (auto simp: email_test_iff_suffix)
qed

section \<open>The UserForm schema: saved exactly under the field rules\<close>

lemma keyed_Nil: "keyed k e = [] \<longleftrightarrow> e = None"
  by (simp add: keyed_def split: option.splits)

lemma map_of_keyed_append:
  "map_of (keyed k e @ rest) k' = (if k' = k \<and> e \<noteq> None then e else map_of rest k')"
  by (auto simp: keyed_def split: option.splits)

lemma map_of_keyed: "map_of (keyed k e) k' = (if k' = k then e else None)"
  by (auto simp: keyed_def split: option.splits)

lemma validate_lookup:
  "map_of (validate now d) ''firstName'' = check_firstName (in_firstName d)"
  "map_of (validate now d) ''lastName'' = check_lastName (in_lastName d)"
  "map_of (validate now d) ''email'' = check_email (in_email d)"
  "map_of (validate now d) ''phone'' = check_phone (in_phone d)"
  "map_of (validate now d) ''dateOfBirth'' = check_dateOfBirth now (in_dateOfBirth d)"
  "map_of (validate now d) ''address'' = check_address (in_address d)"
  "map_of (validate now d) ''city'' = check_city (in_city d)"
  "map_of (validate now d) ''state'' = check_state (in_state d)"
  "map_of (validate now d) ''pincode'' = check_pincode (in_pincode d)"
  "map_of (validate now d) ''aadharNumber'' = check_aadharNumber (in_aadharNumber d)"
  "map_of (validate now d) ''aadharFile'' = check_aadharFile (in_aadharFile d)"
  "map_of (validate now d) ''signatureFile'' = check_signatureFile (in_signatureFile d)"
  "map_of (validate now d) ''agreeTerms'' = check_agreeTerms (in_agreeTerms d)"
  by (simp_all add: validate_def map_of_keyed_append map_of_keyed del: map_of_append)

lemma required_string_None:
  "required_string msg v rest = None \<longleftrightarrow> present v (\<lambda>s. rest s = None)"
  by (simp add: required_string_def present_def split: option.splits)

lemma check_None:
  "check_firstName v = None \<longleftrightarrow> present (trimmed v) (\<lambda>s. 2 \<le> length s \<and> length s \<le> 50)"
  "check_lastName v = None \<longleftrightarrow> present (trimmed v) (\<lambda>s. 2 \<le> length s \<and> length s \<le> 50)"
  "check_email v = None \<longleftrightarrow> present (map_option toLowerCase (trimmed v)) email_test"
  "check_phone v = None \<longleftrightarrow> present v (digits_exactly 10)"
  "check_dateOfBirth now dv = None \<longleftrightarrow> (case dv of DateMs t \<Rightarrow> t < now | _ \<Rightarrow> False)"
  "check_address v = None \<longleftrightarrow> present v (\<lambda>s. 5 \<le> length s)"
  "check_city v = None \<longleftrightarrow> present v (\<lambda>s. True)"
  "check_state v = None \<longleftrightarrow> present v (\<lambda>s. True)"
  "check_pincode v = None \<longleftrightarrow> present v (digits_exactly 6)"
  "check_aadharNumber v = None \<longleftrightarrow> present v (digits_exactly 12)"
  "check_aadharFile v = None \<longleftrightarrow> present v (\<lambda>s. True)"
  "check_signatureFile v = None \<longleftrightarrow> present v (\<lambda>s. True)"
  "check_agreeTerms bv = None \<longleftrightarrow> bv = Some True"
  by (auto simp: check_firstName_def check_lastName_def check_email_def check_phone_def
      check_dateOfBirth_def check_address_def check_city_def check_state_def check_pincode_def
      check_aadharNumber_def check_aadharFile_def check_signatureFile_def check_agreeTerms_def
      required_string_None present_def split: option.splits date_field.splits)

lemma validate_Nil: "validate now d = [] \<longleftrightarrow> field_rules now d"
  by (simp add: validate_def keyed_Nil check_None field_rules_def)

lemma UserForm_save_Inr:
  "UserForm_save now forms d = Inr forms' \<longleftrightarrow>
     field_rules now d \<and> forms' = forms @ [document now d]"
  by (auto simp: UserForm_save_def validate_Nil [symmetric] split: list.splits)

lemma UserForm_save_Inl:
  "\<not> field_rules now d \<Longrightarrow>
   UserForm_save now forms d = Inl (ValidationError (validate now d)) \<and> validate now d \<noteq> []"
  by (auto simp: UserForm_save_def validate_Nil [symmetric] split: list.splits)

lemma present_str_value: "present v P \<Longrightarrow> str_value v \<noteq> [] \<and> P (str_value v)"
  by (auto simp: present_def str_value_def split: option.splits)

lemma present_trimmed: "present (trimmed v) P \<Longrightarrow> trim (str_value v) \<noteq> [] \<and> P (trim (str_value v))"
  by (auto simp: present_def str_value_def trimmed_def split: option.splits)

lemma present_email:
  "present (map_option toLowerCase (trimmed v)) P \<Longrightarrow> P (toLowerCase (trim (str_value v)))"
  by (auto simp: present_def str_value_def trimmed_def split: option.splits)

lemma stored_document_rules:
  assumes "field_rules now d"
  shows "2 \<le> length (uf_firstName (document now d)) \<and> length (uf_firstName (document now d)) \<le> 50 \<and>
    2 \<le> length (uf_lastName (document now d)) \<and> length (uf_lastName (document now d)) \<le> 50 \<and>
    email_test (uf_email (document now d)) \<and>
    digits_exactly 10 (uf_phone (document now d)) \<and>
    uf_dateOfBirth (document now d) < now \<and>
    5 \<le> length (uf_address (document now d)) \<and>
    digits_exactly 6 (uf_pincode (document now d)) \<and>
    digits_exactly 12 (uf_aadharNumber (document now d)) \<and>
    uf_aadharFile (document now d) \<noteq> [] \<and> uf_signatureFile (document now d) \<noteq> [] \<and>
    uf_agreeTerms (document now d) = True"
  using assms
  by (auto simp: field_rules_def document_def dest!: present_str_value present_trimmed present_email
      split: date_field.splits)


lemma name_messages:
  "present (trimmed v) (\<lambda>s. length s < 2) \<Longrightarrow>
     check_firstName v = Some ''First name must be at least 2 characters'' \<and>
     check_lastName v = Some ''Last name must be at least 2 characters''"
  "present (trimmed v) (\<lambda>s. 50 < length s) \<Longrightarrow>
     check_firstName v = Some ''First name cannot exceed 50 characters'' \<and>
     check_lastName v = Some ''Last name cannot exceed 50 characters''"
  "\<not> present (trimmed v) (\<lambda>s. True) \<Longrightarrow>
     check_firstName v = Some ''First name is required'' \<and>
     check_lastName v = Some ''Last name is required''"
  by (auto simp: check_firstName_def check_lastName_def required_string_def present_def
      split: option.splits)

lemma pattern_messages:
  "present (map_option toLowerCase (trimmed v)) (\<lambda>s. \<not> email_test s) \<Longrightarrow>
     check_email v = Some ''Please enter a valid email address''"
  "present v (\<lambda>s. \<not> digits_exactly 10 s) \<Longrightarrow> check_phone v = Some ''Phone number must be 10 digits''"
  "present v (\<lambda>s. length s < 5) \<Longrightarrow> check_address v = Some ''Address must be at least 5 characters''"
  "present v (\<lambda>s. \<not> digits_exactly 6 s) \<Longrightarrow> check_pincode v = Some ''Pincode must be 6 digits''"
  "present v (\<lambda>s. \<not> digits_exactly 12 s) \<Longrightarrow>
     check_aadharNumber v = Some ''Aadhar number must be 12 digits''"
  by (auto simp: check_email_def check_phone_def check_address_def check_pincode_def
      check_aadharNumber_def required_string_def present_def split: option.splits)

lemma required_messages:
  "\<not> present v (\<lambda>s. True) \<Longrightarrow>
     check_phone v = Some ''Phone number is required'' \<and>
     check_address v = Some ''Address is required'' \<and>
     check_city v = Some ''City is required'' \<and>
     check_state v = Some ''State is required'' \<and>
     check_pincode v = Some ''Pincode is required'' \<and>
     check_aadharNumber v = Some ''Aadhar number is required'' \<and>
     check_aadharFile v = Some ''Aadhar file is required'' \<and>
     check_signatureFile v = Some ''Signature file is required''"
  "\<not> present (map_option toLowerCase (trimmed v)) (\<lambda>s. True) \<Longrightarrow>
     check_email v = Some ''Email is required''"
  by (auto simp: check_phone_def check_address_def check_city_def check_state_def
      check_pincode_def check_aadharNumber_def check_aadharFile_def check_signatureFile_def
      check_email_def required_string_def present_def split: option.splits)

lemma other_messages:
  "now \<le> t \<Longrightarrow> check_dateOfBirth now (DateMs t) = Some ''Date of birth must be in the past''"
  "check_dateOfBirth now DateAbsent = Some ''Date of birth is required''"
  "check_agreeTerms (Some False) = Some ''You must accept the terms and conditions''"
  "check_agreeTerms None = Some ''You must agree to the terms''"
  by (simp_all add: check_dateOfBirth_def check_agreeTerms_def)

text \<open>
  C7. Saving a UserForm document adds it to the collection exactly when every field
  rule holds; then the stored names have 2 to 50 characters, the stored email matches
  the pattern, the phone has exactly 10 digits, the date of birth is before the
  current time, the address has at least 5 characters, the pincode has exactly 6
  digits, the Aadhar number exactly 12, both file paths are non-empty and
  \<open>agreeTerms\<close> is true; \<open>agreeMarketing\<close> is false when it was absent. When a rule is
  violated nothing is stored: the save fails with a ValidationError whose non-empty
  map carries, under the key of each violated field, the message of the schema for
  that violation.
\<close>

theorem UserForm_saved_iff_field_rules:
  "(UserForm_save now forms d = Inr forms' \<longleftrightarrow>
      field_rules now d \<and> forms' = forms @ [document now d]) \<and>
   (\<not> field_rules now d \<longrightarrow>
      UserForm_save now forms d = Inl (ValidationError (validate now d)) \<and> validate now d \<noteq> []) \<and>
   (field_rules now d \<longrightarrow>
      2 \<le> length (uf_firstName (document now d)) \<and> length (uf_firstName (document now d)) \<le> 50 \<and>
      2 \<le> length (uf_lastName (document now d)) \<and> length (uf_lastName (document now d)) \<le> 50 \<and>
      email_test (uf_email (document now d)) \<and>
      digits_exactly 10 (uf_phone (document now d)) \<and>
      uf_dateOfBirth (document now d) < now \<and>
      5 \<le> length (uf_address (document now d)) \<and>
      digits_exactly 6 (uf_pincode (document now d)) \<and>
      digits_exactly 12 (uf_aadharNumber (document now d)) \<and>
      uf_aadharFile (document now d) \<noteq> [] \<and> uf_signatureFile (document now d) \<noteq> [] \<and>
      uf_agreeTerms (document now d) = True) \<and>
   (in_agreeMarketing d = None \<longrightarrow> uf_agreeMarketing (document now d) = False) \<and>
   (present (trimmed (in_firstName d)) (\<lambda>s. length s < 2) \<longrightarrow>
      map_of (validate now d) ''firstName'' = Some ''First name must be at least 2 characters'') \<and>
   (present (trimmed (in_firstName d)) (\<lambda>s. 50 < length s) \<longrightarrow>
      map_of (validate now d) ''firstName'' = Some ''First name cannot exceed 50 characters'') \<and>
   (\<not> present (trimmed (in_firstName d)) (\<lambda>s. True) \<longrightarrow>
      map_of (validate now d) ''firstName'' = Some ''First name is required'') \<and>
   (present (trimmed (in_lastName d)) (\<lambda>s. length s < 2) \<longrightarrow>
      map_of (validate now d) ''lastName'' = Some ''Last name must be at least 2 characters'') \<and>
   (present (trimmed (in_lastName d)) (\<lambda>s. 50 < length s) \<longrightarrow>
      map_of (validate now d) ''lastName'' = Some ''Last name cannot exceed 50 characters'') \<and>
   (\<not> present (trimmed (in_lastName d)) (\<lambda>s. True) \<longrightarrow>
      map_of (validate now d) ''lastName'' = Some ''Last name is required'') \<and>
   (present (map_option toLowerCase (trimmed (in_email d))) (\<lambda>s. \<not> email_test s) \<longrightarrow>
      map_of (validate now d) ''email'' = Some ''Please enter a valid email address'') \<and>
   (\<not> present (map_option toLowerCase (trimmed (in_email d))) (\<lambda>s. True) \<longrightarrow>
      map_of (validate now d) ''email'' = Some ''Email is required'') \<and>
   (present (in_phone d) (\<lambda>s. \<not> digits_exactly 10 s) \<longrightarrow>
      map_of (validate now d) ''phone'' = Some ''Phone number must be 10 digits'') \<and>
   (\<not> present (in_phone d) (\<lambda>s. True) \<longrightarrow>
      map_of (validate now d) ''phone'' = Some ''Phone number is required'') \<and>
   (\<forall>t. in_dateOfBirth d = DateMs t \<and> now \<le> t \<longrightarrow>
      map_of (validate now d) ''dateOfBirth'' = Some ''Date of birth must be in the past'') \<and>
   (in_dateOfBirth d = DateAbsent \<longrightarrow>
      map_of (validate now d) ''dateOfBirth'' = Some ''Date of birth is required'') \<and>
   (present (in_address d) (\<lambda>s. length s < 5) \<longrightarrow>
      map_of (validate now d) ''address'' = Some ''Address must be at least 5 characters'') \<and>
   (\<not> present (in_address d) (\<lambda>s. True) \<longrightarrow>
      map_of (validate now d) ''address'' = Some ''Address is required'') \<and>
   (present (in_pincode d) (\<lambda>s. \<not> digits_exactly 6 s) \<longrightarrow>
      map_of (validate now d) ''pincode'' = Some ''Pincode must be 6 digits'') \<and>
   (\<not> present (in_pincode d) (\<lambda>s. True) \<longrightarrow>
      map_of (validate now d) ''pincode'' = Some ''Pincode is required'') \<and>
   (present (in_aadharNumber d) (\<lambda>s. \<not> digits_exactly 12 s) \<longrightarrow>
      map_of (validate now d) ''aadharNumber'' = Some ''Aadhar number must be 12 digits'') \<and>
   (\<not> present (in_aadharNumber d) (\<lambda>s. True) \<longrightarrow>
      map_of (validate now d) ''aadharNumber'' = Some ''Aadhar number is required'') \<and>
   (\<not> present (in_aadharFile d) (\<lambda>s. True) \<longrightarrow>
      map_of (validate now d) ''aadharFile'' = Some ''Aadhar file is required'') \<and>
   (\<not> present (in_signatureFile d) (\<lambda>s. True) \<longrightarrow>
      map_of (validate now d) ''signatureFile'' = Some ''Signature file is required'') \<and>
   (in_agreeTerms d = Some False \<longrightarrow>
      map_of (validate now d) ''agreeTerms'' = Some ''You must accept the terms and conditions'') \<and>
   (in_agreeTerms d = None \<longrightarrow>
      map_of (validate now d) ''agreeTerms'' = Some ''You must agree to the terms'')"
proof (intro conjI impI allI)
  show "UserForm_save now forms d = Inr forms' \<longleftrightarrow>
      field_rules now d \<and> forms' = forms @ [document now d]"
    by (rule UserForm_save_Inr)
next
  assume "\<not> field_rules now d"
  then show "UserForm_save now forms d = Inl (ValidationError (validate now d))"
    and "validate now d \<noteq> []"
    by (simp_all add: UserForm_save_Inl)
next
  assume r: "field_rules now d"
  note s = stored_document_rules [OF r]
  from s show "2 \<le> length (uf_firstName (document now d))" by simp
  from s show "length (uf_firstName (document now d)) \<le> 50" by simp
  from s show "2 \<le> length (uf_lastName (document now d))" by simp
  from s show "length (uf_lastName (document now d)) \<le> 50" by simp
  from s show "email_test (uf_email (document now d))" by simp
  from s show "digits_exactly 10 (uf_phone (document now d))" by simp
  from s show "uf_dateOfBirth (document now d) < now" by simp
  from s show "5 \<le> length (uf_address (document now d))" by simp
  from s show "digits_exactly 6 (uf_pincode (document now d))" by simp
  from s show "digits_exactly 12 (uf_aadharNumber (document now d))" by simp
  from s show "uf_aadharFile (document now d) \<noteq> []" by simp
  from s show "uf_signatureFile (document now d) \<noteq> []" by simp
  from s show "uf_agreeTerms (document now d) = True" by simp
next
  assume "in_agreeMarketing d = None"
  then show "uf_agreeMarketing (document now d) = False" by (simp add: document_def)
qed (simp_all add: validate_lookup name_messages pattern_messages required_messages other_messages)


lemma field_rules_valid_input: "field_rules 1700000000000 valid_input"
  by (simp add: field_rules_def valid_input_def newUser_def sample_submission_def
      sample_file_paths present_def trimmed_def trim_def js_space_def toLowerCase_def
      toLowerCase_char_def digits_exactly_def is_digit_def dot_def re_dot_any_def re_at_mid_def)

lemma document_valid_input:
  "document 1700000000000 valid_input =
     \<lparr>uf_firstName = ''Asha'', uf_lastName = ''Rao'', uf_email = ''asha@example.com'',
      uf_phone = ''9876543210'', uf_dateOfBirth = 631152000000, uf_address = ''12 Lake Road'',
      uf_city = ''Pune'', uf_state = ''MH'', uf_pincode = ''411001'',
      uf_aadharNumber = ''123412341234'',
      uf_aadharFile = ''uploads/aadhar/aadharFile-2-7.pdf'',
      uf_signatureFile = ''uploads/signatures/signatureFile-2-8.png'',
      uf_agreeTerms = True, uf_agreeMarketing = False,
      uf_createdAt = 1700000000000, uf_updatedAt = 1700000000000\<rparr>"
  by (simp add: document_def valid_input_def newUser_def sample_submission_def
      sample_file_paths str_value_def trim_def js_space_def toLowerCase_def toLowerCase_char_def)

theorem UserForm_saved_iff_field_rules_witness:
  "UserForm_save 1700000000000 [] valid_input = Inr [document 1700000000000 valid_input] \<and>
   uf_agreeMarketing (document 1700000000000 valid_input) = False \<and>
   length (uf_firstName (document 1700000000000 valid_input)) = 4 \<and>
   UserForm_save 1700000000000 [] (newUser sample_submission sample_files) =
     Inl (ValidationError [(''phone'', ''Phone number must be 10 digits'')]) \<and>
   map_of (validate 1700000000000 (newUser sample_submission sample_files)) ''phone'' =
     Some ''Phone number must be 10 digits''"
proof -
  have nf: "\<not> field_rules 1700000000000 (newUser sample_submission sample_files)"
    by (simp add: field_rules_def newUser_def sample_submission_def present_def digits_exactly_def)
  have pv: "present (in_phone (newUser sample_submission sample_files)) (\<lambda>s. \<not> digits_exactly 10 s)"
    by (simp add: newUser_def sample_submission_def present_def digits_exactly_def)
  have am: "in_agreeMarketing valid_input = None" by (simp add: valid_input_def)
  have A: "UserForm_save 1700000000000 [] valid_input = Inr [document 1700000000000 valid_input] \<and>
     uf_agreeMarketing (document 1700000000000 valid_input) = False"
    using UserForm_saved_iff_field_rules
      [where now = 1700000000000 and forms = "[]" and d = valid_input
         and forms' = "[document 1700000000000 valid_input]"]
      field_rules_valid_input am
    by simp
  have B: "UserForm_save 1700000000000 [] (newUser sample_submission sample_files) =
       Inl (ValidationError (validate 1700000000000 (newUser sample_submission sample_files))) \<and>
     map_of (validate 1700000000000 (newUser sample_submission sample_files)) ''phone'' =
       Some ''Phone number must be 10 digits''"
    using UserForm_saved_iff_field_rules
      [where now = 1700000000000 and forms = "[]" and d = "newUser sample_submission sample_files"
         and forms' = "[]"] nf pv
    by simp
  from A B show ?thesis by (simp add: validate_sample_submission document_valid_input)
qed

section \<open>savePayment\<close>


lemma savePayment_falsy:
  "\<not> truthy (userName body) \<or> \<not> truthy (courseName body) \<or> \<not> truthy (amount body) \<or>
   \<not> truthy (paymentStatus body) \<Longrightarrow>
   savePayment pf now s body =
     (\<lparr>ms_status = 400,
       ms_message = ''userName, courseName, amount, and paymentStatus are required'',
       ms_error = None\<rparr>, s)"
  by (auto simp: savePayment_def)

lemma savePayment_cases:
  "savePayment pf now s body =
     (if \<not> truthy (userName body) \<or> \<not> truthy (courseName body) \<or> \<not> truthy (amount body) \<or>
         \<not> truthy (paymentStatus body)
      then (\<lparr>ms_status = 400,
              ms_message = ''userName, courseName, amount, and paymentStatus are required'',
              ms_error = None\<rparr>, s)
      else case cleanAmount pf (amount body) of
        None \<Rightarrow>
          (\<lparr>ms_status = 500, ms_message = ''Server Error'',
            ms_error = Some (mk_error ''TypeError'' ''Cannot convert object to primitive value'')\<rparr>, s)
      | Some n \<Rightarrow>
          if n = NaN
          then (\<lparr>ms_status = 400,
                  ms_message = ''Invalid amount format. Please provide a valid number.'',
                  ms_error = None\<rparr>, s)
          else if Payment_validate (body\<lparr>amount := JNum n\<rparr>) = []
          then (\<lparr>ms_status = 201, ms_message = ''Payment saved successfully'', ms_error = None\<rparr>,
                s\<lparr>payments := payments s @ [Payment_document now (body\<lparr>amount := JNum n\<rparr>)]\<rparr>)
          else (\<lparr>ms_status = 500, ms_message = ''Server Error'',
                  ms_error = Some (ValidationError (Payment_validate (body\<lparr>amount := JNum n\<rparr>)))\<rparr>,
                s))"
  by (auto simp: savePayment_def Payment_save_def split: list.splits option.splits)

lemma savePayment_201:
  assumes "ms_status (fst (savePayment pf now s body)) = 201"
  shows "truthy (userName body) \<and> truthy (courseName body) \<and> truthy (amount body) \<and>
     truthy (paymentStatus body) \<and>
     (\<exists>n. cleanAmount pf (amount body) = Some n \<and> n \<noteq> NaN \<and>
        Payment_validate (body\<lparr>amount := JNum n\<rparr>) = [] \<and>
        snd (savePayment pf now s body) =
          s\<lparr>payments := payments s @ [Payment_document now (body\<lparr>amount := JNum n\<rparr>)]\<rparr>)"
  using assms by (auto simp: savePayment_cases split: if_splits option.splits)

lemma savePayment_not_201:
  "ms_status (fst (savePayment pf now s body)) \<noteq> 201 \<Longrightarrow> snd (savePayment pf now s body) = s"
  by (auto simp: savePayment_cases split: if_splits option.splits)

lemma pay_amount_document:
  "pay_amount (Payment_document now (body\<lparr>amount := JNum n\<rparr>)) = B_number_string n"
  by (simp add: Payment_document_def stored_or_def stored_def castString_def)

lemma enum_path_Nil_truthy:
  "truthy v \<Longrightarrow> enum_path v = [] \<Longrightarrow>
   \<exists>a. castString v = Some (Some (B_string a)) \<and> a \<in> set paymentStatus_enum"
  by (cases v) (auto simp: enum_path_def castString_def truthy_def paymentStatus_enum_def asc_def
      split: if_splits option.splits)

lemma pay_status_document:
  "castString (paymentStatus body) = Some (Some x) \<Longrightarrow>
   pay_paymentStatus (Payment_document now (body\<lparr>amount := y\<rparr>)) = x"
  by (simp add: Payment_document_def stored_or_def stored_def)


lemma castString_undefined: "castString v = Some None \<longleftrightarrow> v = JUndefined"
  by (cases v) (auto simp: castString_def split: option.splits)

lemma sample_payment_truthy:
  "truthy (userName sample_payment)" "truthy (courseName sample_payment)"
  "truthy (amount sample_payment)" "truthy (paymentStatus sample_payment)"
  by (simp_all add: sample_payment_def truthy_def asc_def)

lemma sample_payment_cleanAmount:
  "cleanAmount exact_parseFloat (amount sample_payment) = Some (Fin (2401 / 2))"
  by (simp add: sample_payment_def cleanAmount_def strip_amount_def exact_parseFloat_def asc_def
      isWhiteSpace_def isDigit_def digits_value_def pow10_def exponent_part_def Let_def)

lemma sample_payment_valid:
  "Payment_validate (sample_payment\<lparr>amount := JNum (Fin (2401 / 2))\<rparr>) = []"
  by (simp add: Payment_validate_def sample_payment_def required_path_def optional_path_def
      enum_path_def castString_def is_empty_value_def paymentStatus_enum_def asc_def)

lemma sample_payment_saved:
  "savePayment exact_parseFloat now sample_server sample_payment =
     (\<lparr>ms_status = 201, ms_message = ''Payment saved successfully'', ms_error = None\<rparr>,
      sample_server\<lparr>payments := payments sample_server @
        [Payment_document now (sample_payment\<lparr>amount := JNum (Fin (2401 / 2))\<rparr>)]\<rparr>)"
  by (simp add: savePayment_cases sample_payment_truthy sample_payment_cleanAmount
      sample_payment_valid)

lemma number_payment_saved:
  "savePayment exact_parseFloat now sample_server (sample_payment\<lparr>amount := JNum (Fin (2401 / 2))\<rparr>) =
     (\<lparr>ms_status = 201, ms_message = ''Payment saved successfully'', ms_error = None\<rparr>,
      sample_server\<lparr>payments := payments sample_server @
        [Payment_document now (sample_payment\<lparr>amount := JNum (Fin (2401 / 2))\<rparr>)]\<rparr>)"
  using sample_payment_truthy sample_payment_valid
  by (simp add: savePayment_cases cleanAmount_def truthy_def)

text \<open>
  C10. \<open>savePayment\<close> answers 400 with the message "userName, courseName, amount, and
  paymentStatus are required" and persists nothing whenever one of the four values is
  falsy; so it does when the amount is the number 0 and when \<open>paymentStatus\<close> is
  omitted. Whenever a payment is persisted, the \<open>paymentStatus\<close> of the request is
  truthy, hence not omitted, its cast to String is one of the strings of the enum, and
  that string is what is stored. The schema applies the default Pending to an omitted
  \<open>paymentStatus\<close> and to no other value, so the default is never applied through
  this handler.
\<close>

theorem savePayment_requires_truthy_fields:
  "(\<not> truthy (userName body) \<or> \<not> truthy (courseName body) \<or> \<not> truthy (amount body) \<or>
    \<not> truthy (paymentStatus body) \<longrightarrow>
      savePayment pf now s body =
        (\<lparr>ms_status = 400,
          ms_message = ''userName, courseName, amount, and paymentStatus are required'',
          ms_error = None\<rparr>, s)) \<and>
   (amount body = JNum (Fin 0) \<longrightarrow>
      savePayment pf now s body =
        (\<lparr>ms_status = 400,
          ms_message = ''userName, courseName, amount, and paymentStatus are required'',
          ms_error = None\<rparr>, s)) \<and>
   (paymentStatus body = JUndefined \<longrightarrow>
      savePayment pf now s body =
        (\<lparr>ms_status = 400,
          ms_message = ''userName, courseName, amount, and paymentStatus are required'',
          ms_error = None\<rparr>, s)) \<and>
   (ms_status (fst (savePayment pf now s body)) = 201 \<longrightarrow>
      truthy (paymentStatus body) \<and> paymentStatus body \<noteq> JUndefined \<and>
      (\<exists>a. castString (paymentStatus body) = Some (Some (B_string a)) \<and>
           a \<in> set paymentStatus_enum \<and>
           pay_paymentStatus (last (payments (snd (savePayment pf now s body)))) = B_string a)) \<and>
   (castString (paymentStatus body) = Some None \<longleftrightarrow> paymentStatus body = JUndefined) \<and>
   pay_paymentStatus (Payment_document now (body\<lparr>paymentStatus := JUndefined\<rparr>)) =
     B_string (asc ''Pending'')"
proof (intro conjI impI)
  assume "\<not> truthy (userName body) \<or> \<not> truthy (courseName body) \<or> \<not> truthy (amount body) \<or>
    \<not> truthy (paymentStatus body)"
  then show "savePayment pf now s body =
        (\<lparr>ms_status = 400,
          ms_message = ''userName, courseName, amount, and paymentStatus are required'',
          ms_error = None\<rparr>, s)"
    by (rule savePayment_falsy)
next
  assume "amount body = JNum (Fin 0)"
  then have "\<not> truthy (amount body)" by (simp add: truthy_def)
  then show "savePayment pf now s body =
        (\<lparr>ms_status = 400,
          ms_message = ''userName, courseName, amount, and paymentStatus are required'',
          ms_error = None\<rparr>, s)"
    by (simp add: savePayment_falsy)
next
  assume "paymentStatus body = JUndefined"
  then have "\<not> truthy (paymentStatus body)" by (simp add: truthy_def)
  then show "savePayment pf now s body =
        (\<lparr>ms_status = 400,
          ms_message = ''userName, courseName, amount, and paymentStatus are required'',
          ms_error = None\<rparr>, s)"
    by (simp add: savePayment_falsy)
next
  assume a: "ms_status (fst (savePayment pf now s body)) = 201"
  from savePayment_201 [OF a] obtain n where
    t: "truthy (paymentStatus body)" and
    v: "Payment_validate (body\<lparr>amount := JNum n\<rparr>) = []" and
    e: "snd (savePayment pf now s body) =
          s\<lparr>payments := payments s @ [Payment_document now (body\<lparr>amount := JNum n\<rparr>)]\<rparr>"
    by blast
  from t show "truthy (paymentStatus body)" .
  from t show "paymentStatus body \<noteq> JUndefined" by (auto simp: truthy_def)
  from v have "enum_path (paymentStatus body) = []" by (simp add: Payment_validate_def)
  with t obtain a where pa: "castString (paymentStatus body) = Some (Some (B_string a))"
    "a \<in> set paymentStatus_enum"
    by (blast dest: enum_path_Nil_truthy)
  from e pa have "pay_paymentStatus (last (payments (snd (savePayment pf now s body)))) = B_string a"
    by (simp add: pay_status_document)
  with pa show "\<exists>a. castString (paymentStatus body) = Some (Some (B_string a)) \<and>
           a \<in> set paymentStatus_enum \<and>
           pay_paymentStatus (last (payments (snd (savePayment pf now s body)))) = B_string a"
    by blast
next
  show "castString (paymentStatus body) = Some None \<longleftrightarrow> paymentStatus body = JUndefined"
    by (rule castString_undefined)
  show "pay_paymentStatus (Payment_document now (body\<lparr>paymentStatus := JUndefined\<rparr>)) =
     B_string (asc ''Pending'')"
    by (simp add: Payment_document_def stored_or_def stored_def castString_def)
qed

theorem savePayment_requires_truthy_fields_witness:
  "savePayment exact_parseFloat 1700000000000 sample_server
       (sample_payment\<lparr>amount := JNum (Fin 0)\<rparr>) =
     (\<lparr>ms_status = 400,
       ms_message = ''userName, courseName, amount, and paymentStatus are required'',
       ms_error = None\<rparr>, sample_server) \<and>
   savePayment exact_parseFloat 1700000000000 sample_server
       (sample_payment\<lparr>paymentStatus := JUndefined\<rparr>) =
     (\<lparr>ms_status = 400,
       ms_message = ''userName, courseName, amount, and paymentStatus are required'',
       ms_error = None\<rparr>, sample_server) \<and>
   pay_paymentStatus (last (payments (snd (savePayment exact_parseFloat 1700000000000
       sample_server sample_payment)))) = B_string (asc ''Paid'')"
proof -
  have A: "savePayment exact_parseFloat 1700000000000 sample_server
       (sample_payment\<lparr>amount := JNum (Fin 0)\<rparr>) =
     (\<lparr>ms_status = 400,
       ms_message = ''userName, courseName, amount, and paymentStatus are required'',
       ms_error = None\<rparr>, sample_server)"
    using savePayment_requires_truthy_fields
      [where pf = exact_parseFloat and now = 1700000000000 and s = sample_server
         and body = "sample_payment\<lparr>amount := JNum (Fin 0)\<rparr>"]
    by simp
  have B: "savePayment exact_parseFloat 1700000000000 sample_server
       (sample_payment\<lparr>paymentStatus := JUndefined\<rparr>) =
     (\<lparr>ms_status = 400,
       ms_message = ''userName, courseName, amount, and paymentStatus are required'',
       ms_error = None\<rparr>, sample_server)"
    using savePayment_requires_truthy_fields
      [where pf = exact_parseFloat and now = 1700000000000 and s = sample_server
         and body = "sample_payment\<lparr>paymentStatus := JUndefined\<rparr>"]
    by simp
  have st: "ms_status (fst (savePayment exact_parseFloat 1700000000000 sample_server
      sample_payment)) = 201"
    by (simp add: sample_payment_saved)
  have ps: "castString (paymentStatus sample_payment) = Some (Some (B_string (asc ''Paid'')))"
    by (simp add: sample_payment_def castString_def)
  have C: "pay_paymentStatus (last (payments (snd (savePayment exact_parseFloat 1700000000000
       sample_server sample_payment)))) = B_string (asc ''Paid'')"
    using savePayment_requires_truthy_fields
      [where pf = exact_parseFloat and now = 1700000000000 and s = sample_server
         and body = sample_payment] st ps
    by auto
  from A B C show ?thesis by simp
qed

text \<open>
  C9 (as amended). For a string amount \<open>savePayment\<close> removes every rupee sign, comma
  and white-space character and parses the rest with \<open>parseFloat\<close>; a number is taken
  as it is. When the four required values are present and the result is \<open>NaN\<close>, the
  answer is 400 with the message "Invalid amount format. Please provide a valid
  number." and nothing is persisted. When the payment is persisted, the document is
  built from the request with the number in place of the amount, and the value
  stored in the amount field is the string of that number, since the schema declares
  the field a String. Whenever the answer is not 201 the state is unchanged. This
  holds whatever number \<open>parseFloat\<close> gives for a string.
\<close>

theorem savePayment_normalises_amount:
  "cleanAmount pf (JStr a) =
     Some (pf (filter (\<lambda>c. \<not> (c = 8377 \<or> c = 44 \<or> isWhiteSpace c)) a)) \<and>
   cleanAmount pf (JNum n) = Some n \<and>
   (truthy (userName body) \<and> truthy (courseName body) \<and> truthy (amount body) \<and>
    truthy (paymentStatus body) \<and> cleanAmount pf (amount body) = Some NaN \<longrightarrow>
      savePayment pf now s body =
        (\<lparr>ms_status = 400,
          ms_message = ''Invalid amount format. Please provide a valid number.'',
          ms_error = None\<rparr>, s)) \<and>
   (ms_status (fst (savePayment pf now s body)) = 201 \<longrightarrow>
      (\<exists>m. cleanAmount pf (amount body) = Some m \<and> m \<noteq> NaN \<and>
        payments (snd (savePayment pf now s body)) =
          payments s @ [Payment_document now (body\<lparr>amount := JNum m\<rparr>)] \<and>
        pay_amount (last (payments (snd (savePayment pf now s body)))) = B_number_string m)) \<and>
   (ms_status (fst (savePayment pf now s body)) \<noteq> 201 \<longrightarrow> snd (savePayment pf now s body) = s)"
proof (intro conjI impI)
  show "cleanAmount pf (JStr a) =
     Some (pf (filter (\<lambda>c. \<not> (c = 8377 \<or> c = 44 \<or> isWhiteSpace c)) a))"
    by (simp add: cleanAmount_def strip_amount_def)
  show "cleanAmount pf (JNum n) = Some n" by (simp add: cleanAmount_def)
next
  assume "truthy (userName body) \<and> truthy (courseName body) \<and> truthy (amount body) \<and>
    truthy (paymentStatus body) \<and> cleanAmount pf (amount body) = Some NaN"
  then show "savePayment pf now s body =
        (\<lparr>ms_status = 400,
          ms_message = ''Invalid amount format. Please provide a valid number.'',
          ms_error = None\<rparr>, s)"
    by (simp add: savePayment_cases)
next
  assume a: "ms_status (fst (savePayment pf now s body)) = 201"
  from savePayment_201 [OF a] obtain m where
    c: "cleanAmount pf (amount body) = Some m" "m \<noteq> NaN" and
    e: "snd (savePayment pf now s body) =
          s\<lparr>payments := payments s @ [Payment_document now (body\<lparr>amount := JNum m\<rparr>)]\<rparr>"
    by blast
  from e have "payments (snd (savePayment pf now s body)) =
          payments s @ [Payment_document now (body\<lparr>amount := JNum m\<rparr>)]" by simp
  moreover from e have
    "pay_amount (last (payments (snd (savePayment pf now s body)))) = B_number_string m"
    by (simp add: pay_amount_document)
  ultimately show "\<exists>m. cleanAmount pf (amount body) = Some m \<and> m \<noteq> NaN \<and>
        payments (snd (savePayment pf now s body)) =
          payments s @ [Payment_document now (body\<lparr>amount := JNum m\<rparr>)] \<and>
        pay_amount (last (payments (snd (savePayment pf now s body)))) = B_number_string m"
    using c by blast
next
  assume "ms_status (fst (savePayment pf now s body)) \<noteq> 201"
  then show "snd (savePayment pf now s body) = s" by (rule savePayment_not_201)
qed

theorem savePayment_normalises_amount_witness:
  "pay_amount (last (payments (snd (savePayment exact_parseFloat 1700000000000 sample_server
       sample_payment)))) = B_number_string (Fin (2401 / 2)) \<and>
   savePayment exact_parseFloat 1700000000000 sample_server
       (sample_payment\<lparr>amount := JStr (asc ''abc'')\<rparr>) =
     (\<lparr>ms_status = 400,
       ms_message = ''Invalid amount format. Please provide a valid number.'',
       ms_error = None\<rparr>, sample_server)"
proof -
  have st: "ms_status (fst (savePayment exact_parseFloat 1700000000000 sample_server
      sample_payment)) = 201"
    by (simp add: sample_payment_saved)
  have A: "pay_amount (last (payments (snd (savePayment exact_parseFloat 1700000000000
       sample_server sample_payment)))) = B_number_string (Fin (2401 / 2))"
    using savePayment_normalises_amount
      [where pf = exact_parseFloat and now = 1700000000000 and s = sample_server
         and body = sample_payment and a = "[]" and n = NaN] st
    by (auto simp: sample_payment_cleanAmount)
  have c: "cleanAmount exact_parseFloat (JStr (asc ''abc'')) = Some NaN"
    by (simp add: cleanAmount_def strip_amount_def exact_parseFloat_def asc_def isWhiteSpace_def
        isDigit_def Let_def)
  have t: "truthy (JStr (asc ''abc''))" by (simp add: truthy_def asc_def)
  have B: "savePayment exact_parseFloat 1700000000000 sample_server
       (sample_payment\<lparr>amount := JStr (asc ''abc'')\<rparr>) =
     (\<lparr>ms_status = 400,
       ms_message = ''Invalid amount format. Please provide a valid number.'',
       ms_error = None\<rparr>, sample_server)"
    using savePayment_normalises_amount
      [where pf = exact_parseFloat and now = 1700000000000 and s = sample_server
         and body = "sample_payment\<lparr>amount := JStr (asc ''abc'')\<rparr>" and a = "[]" and n = NaN]
      sample_payment_truthy c t
    by simp
  from A B show ?thesis by simp
qed

text \<open>
  C9 as stated fails: for the amount written as the rupee sign and 1,200.50 the
  payment is persisted and the number is 1200.5, but the amount field of the stored
  document holds the string of that number, not the number. The same holds when the
  request carries the number 1200.5 itself, where nothing is parsed.
\<close>

theorem stored_amount_is_a_string:
  "ms_status (fst (savePayment exact_parseFloat 1700000000000 sample_server sample_payment)) = 201 \<and>
   cleanAmount exact_parseFloat (amount sample_payment) = Some (Fin (2401 / 2)) \<and>
   pay_amount (last (payments (snd (savePayment exact_parseFloat 1700000000000 sample_server
       sample_payment)))) = B_number_string (Fin (2401 / 2)) \<and>
   pay_amount (last (payments (snd (savePayment exact_parseFloat 1700000000000 sample_server
       sample_payment)))) \<noteq> B_number (Fin (2401 / 2)) \<and>
   ms_status (fst (savePayment exact_parseFloat 1700000000000 sample_server
       (sample_payment\<lparr>amount := JNum (Fin (2401 / 2))\<rparr>))) = 201 \<and>
   pay_amount (last (payments (snd (savePayment exact_parseFloat 1700000000000 sample_server
       (sample_payment\<lparr>amount := JNum (Fin (2401 / 2))\<rparr>))))) = B_number_string (Fin (2401 / 2)) \<and>
   pay_amount (last (payments (snd (savePayment exact_parseFloat 1700000000000 sample_server
       (sample_payment\<lparr>amount := JNum (Fin (2401 / 2))\<rparr>))))) \<noteq> B_number (Fin (2401 / 2))"
  by (simp add: sample_payment_saved number_payment_saved sample_payment_cleanAmount
      pay_amount_document)

section \<open>File intake: refused uploads\<close>

lemma fileFilter_cases:
  "fileFilter f =
     (if regex_test (allowedTypes (fieldname f)) (mimetype f) \<and>
         regex_test (allowedTypes (fieldname f)) (toLowerCase (path_extname (originalname f)))
      then Inr True
      else Inl (mk_error ''Error''
             (''Invalid file type for '' @ fieldname f @ ''. Only ''
                @ regex_source (allowedTypes (fieldname f)) @ '' files are allowed.'')))"
  by (simp add: fileFilter_def Let_def)

lemma multer_loop_rejects:
  "\<exists>f \<in> set ps. fileFilter f \<noteq> Inr True \<or> fileSize < fsize f \<Longrightarrow>
   \<exists>e. multer_loop left acc d ps = Inl e"
proof (induction ps arbitrary: left acc d)
  case Nil
  then show ?case by simp
next
  case (Cons f fs)
  show ?case
  proof (cases "fileFilter f \<noteq> Inr True \<or> fileSize < fsize f")
    case True
    then show ?thesis
      by (auto simp: fileFilter_cases split: option.splits nat.splits if_splits)
  next
    case False
    with Cons.prems have "\<exists>g \<in> set fs. fileFilter g \<noteq> Inr True \<or> fileSize < fsize g" by auto
    from Cons.IH [OF this] False show ?thesis
      by (auto split: option.splits nat.splits)
  qed
qed


lemma handle_invalid_file_type:
  "fieldname f = ''aadharFile'' \<or> fieldname f = ''signatureFile'' \<Longrightarrow>
   handleRegistrationErrors (mk_error ''Error''
       (''Invalid file type for '' @ fieldname f @ ''. Only ''
          @ regex_source (allowedTypes (fieldname f)) @ '' files are allowed.'')) =
     Some [(''file'', ''Invalid file type for '' @ fieldname f @ ''. Only ''
          @ regex_source (allowedTypes (fieldname f)) @ '' files are allowed.'')]"
  by (auto simp: handleRegistrationErrors_def mk_error_def allowedTypes_def)

text \<open>
  C4. The file filter accepts a file exactly when its declared content type and the
  lower-cased extension of its original name each contain one of the words allowed
  for its field (jpeg, jpg, png and pdf for \<open>aadharFile\<close>; jpeg, jpg and png for
  \<open>signatureFile\<close>), and refuses it otherwise with the error "Invalid file type for
  ..."; the size limit is 5 * 1024 * 1024 bytes. When a part of the request is
  refused by the filter or is larger than the limit, the upload middleware fails,
  the handler of POST / does not run and the state is unchanged, so no database write
  is attempted. The error is passed on to Express and answered with 500: it never
  reaches \<open>handleRegistrationErrors\<close>, which would put a file-type error under the key
  "file" of a 400 response.
\<close>

theorem rejected_upload_bypasses_handler:
  "fileFilter f =
     (if regex_test (allowedTypes (fieldname f)) (mimetype f) \<and>
         regex_test (allowedTypes (fieldname f)) (toLowerCase (path_extname (originalname f)))
      then Inr True
      else Inl (mk_error ''Error''
             (''Invalid file type for '' @ fieldname f @ ''. Only ''
                @ regex_source (allowedTypes (fieldname f)) @ '' files are allowed.''))) \<and>
   allowedTypes ''aadharFile'' = [''jpeg'', ''jpg'', ''png'', ''pdf''] \<and>
   allowedTypes ''signatureFile'' = [''jpeg'', ''jpg'', ''png''] \<and>
   fileSize = 5242880 \<and>
   ((\<exists>g \<in> set ps. fileFilter g \<noteq> Inr True \<or> fileSize < fsize g) \<longrightarrow>
      (\<exists>e. uploadFields (disk s) (Some ps) = Inl e \<and>
           route_post M s body (Some ps) = (Next_error e, s) \<and>
           http_status (fst (route_post M s body (Some ps))) = Some 500)) \<and>
   (fieldname f = ''aadharFile'' \<or> fieldname f = ''signatureFile'' \<longrightarrow>
      handleRegistrationErrors (mk_error ''Error''
          (''Invalid file type for '' @ fieldname f @ ''. Only ''
             @ regex_source (allowedTypes (fieldname f)) @ '' files are allowed.'')) =
        Some [(''file'', ''Invalid file type for '' @ fieldname f @ ''. Only ''
             @ regex_source (allowedTypes (fieldname f)) @ '' files are allowed.'')])"
proof (intro conjI impI)
  show "fileFilter f =
     (if regex_test (allowedTypes (fieldname f)) (mimetype f) \<and>
         regex_test (allowedTypes (fieldname f)) (toLowerCase (path_extname (originalname f)))
      then Inr True
      else Inl (mk_error ''Error''
             (''Invalid file type for '' @ fieldname f @ ''. Only ''
                @ regex_source (allowedTypes (fieldname f)) @ '' files are allowed.'')))"
    by (rule fileFilter_cases)
  show "allowedTypes ''aadharFile'' = [''jpeg'', ''jpg'', ''png'', ''pdf'']"
    by (simp add: allowedTypes_def)
  show "allowedTypes ''signatureFile'' = [''jpeg'', ''jpg'', ''png'']"
    by (simp add: allowedTypes_def)
  show "fileSize = 5242880" by (simp add: fileSize_def)
next
  assume "\<exists>g \<in> set ps. fileFilter g \<noteq> Inr True \<or> fileSize < fsize g"
  then obtain e where e: "multer_loop uploadFields_spec [] (disk s) ps = Inl e"
    using multer_loop_rejects by blast
  then have u: "uploadFields (disk s) (Some ps) = Inl e" by (simp add: uploadFields_def)
  then have r: "route_post M s body (Some ps) = (Next_error e, s)" by (simp add: route_post_def)
  then have "http_status (fst (route_post M s body (Some ps))) = Some 500"
    by (simp add: http_status_def)
  with u r show "\<exists>e. uploadFields (disk s) (Some ps) = Inl e \<and>
           route_post M s body (Some ps) = (Next_error e, s) \<and>
           http_status (fst (route_post M s body (Some ps))) = Some 500"
    by blast
next
  assume "fieldname f = ''aadharFile'' \<or> fieldname f = ''signatureFile''"
  then show "handleRegistrationErrors (mk_error ''Error''
          (''Invalid file type for '' @ fieldname f @ ''. Only ''
             @ regex_source (allowedTypes (fieldname f)) @ '' files are allowed.'')) =
        Some [(''file'', ''Invalid file type for '' @ fieldname f @ ''. Only ''
             @ regex_source (allowedTypes (fieldname f)) @ '' files are allowed.'')]"
    by (rule handle_invalid_file_type)
qed

lemma txt_upload_refused:
  "fileFilter txt_upload =
     Inl (mk_error ''Error''
       ''Invalid file type for aadharFile. Only jpeg|jpg|png|pdf files are allowed.'')"
  by (simp add: fileFilter_def txt_upload_def allowedTypes_def regex_test_def path_extname_def
      toLowerCase_def toLowerCase_char_def)

lemma txt_upload_route:
  "route_post M s body (Some [txt_upload]) =
     (Next_error (mk_error ''Error''
        ''Invalid file type for aadharFile. Only jpeg|jpg|png|pdf files are allowed.''), s)"
  by (simp add: route_post_def uploadFields_def uploadFields_spec_def txt_upload_refused)
    (simp add: txt_upload_def)

lemma big_upload_route:
  "route_post M s body (Some [big_upload]) = (Next_error (MulterError ''File too large''), s)"
proof -
  have "fileFilter big_upload = Inr True"
    by (simp add: fileFilter_def big_upload_def allowedTypes_def regex_test_def path_extname_def
        toLowerCase_def toLowerCase_char_def)
  moreover have "fieldname big_upload = ''aadharFile''" "fileSize < fsize big_upload"
    by (simp_all add: big_upload_def fileSize_def)
  ultimately show ?thesis
    by (simp add: route_post_def uploadFields_def uploadFields_spec_def)
qed

theorem rejected_upload_bypasses_handler_witness:
  "route_post sample_model sample_server [] (Some [txt_upload]) =
     (Next_error (mk_error ''Error''
        ''Invalid file type for aadharFile. Only jpeg|jpg|png|pdf files are allowed.''),
      sample_server) \<and>
   route_post sample_model sample_server [] (Some [big_upload]) =
     (Next_error (MulterError ''File too large''), sample_server) \<and>
   http_status (fst (route_post sample_model sample_server [] (Some [txt_upload]))) = Some 500 \<and>
   http_status (fst (route_post sample_model sample_server [] (Some [big_upload]))) = Some 500 \<and>
   handleRegistrationErrors (mk_error ''Error''
        ''Invalid file type for aadharFile. Only jpeg|jpg|png|pdf files are allowed.'') =
     Some [(''file'', ''Invalid file type for aadharFile. Only jpeg|jpg|png|pdf files are allowed.'')] \<and>
   handleRegistrationErrors (MulterError ''File too large'') = Some [(''general'', ''File too large'')]"
proof -
  have a: "\<exists>g \<in> set [txt_upload]. fileFilter g \<noteq> Inr True \<or> fileSize < fsize g"
    by (simp add: txt_upload_refused)
  have b: "\<exists>g \<in> set [big_upload]. fileFilter g \<noteq> Inr True \<or> fileSize < fsize g"
    by (simp add: big_upload_def fileSize_def)
  have fn: "fieldname txt_upload = ''aadharFile''" by (simp add: txt_upload_def)
  have A: "http_status (fst (route_post sample_model sample_server [] (Some [txt_upload]))) = Some 500 \<and>
     handleRegistrationErrors (mk_error ''Error''
        ''Invalid file type for aadharFile. Only jpeg|jpg|png|pdf files are allowed.'') =
     Some [(''file'', ''Invalid file type for aadharFile. Only jpeg|jpg|png|pdf files are allowed.'')]"
    using rejected_upload_bypasses_handler
      [where f = txt_upload and ps = "[txt_upload]" and s = sample_server and M = sample_model
         and body = "[]"] a fn
    by (auto simp: allowedTypes_def)
  have B: "http_status (fst (route_post sample_model sample_server [] (Some [big_upload]))) = Some 500"
    using rejected_upload_bypasses_handler
      [where f = big_upload and ps = "[big_upload]" and s = sample_server and M = sample_model
         and body = "[]"] b
    by auto
  have C: "handleRegistrationErrors (MulterError ''File too large'') =
      Some [(''general'', ''File too large'')]"
    by (simp add: handleRegistrationErrors_def MulterError_def mk_error_def)
  from A B C show ?thesis by (simp add: txt_upload_route big_upload_route)
qed

end
